theory Spec2Isabelle
  imports Main
begin

section \<open>EGL values used by Surface.cpp\<close>

text \<open>
  \<open>EGLint\<close> is a signed 32-bit integer and \<open>EGLenum\<close> an unsigned 32-bit integer;
  \<open>size_t\<close> is an unsigned machine word and \<open>EGLAttrib\<close> (\<open>intptr_t\<close>) a signed one,
  64 bits wide on the platform modelled. All are modelled as \<open>int\<close> with the
  conversions of \<open>static_cast\<close> and of assignment written out. The enumerants carry the
  values that the Khronos headers \<open>EGL/egl.h\<close> and \<open>EGL/eglext.h\<close> give them; those
  headers are not among the sources.
\<close>

type_synonym EGLint = int
type_synonym EGLenum = int
type_synonym EGLAttrib = int

definition EGL_FALSE :: EGLint where "EGL_FALSE = 0"
definition EGL_TRUE :: EGLint where "EGL_TRUE = 1"
definition EGL_SUCCESS :: EGLint where "EGL_SUCCESS = 0x3000"
definition EGL_NONE :: EGLint where "EGL_NONE = 0x3038"
definition EGL_HEIGHT :: EGLint where "EGL_HEIGHT = 0x3056"
definition EGL_WIDTH :: EGLint where "EGL_WIDTH = 0x3057"
definition EGL_NO_TEXTURE :: EGLint where "EGL_NO_TEXTURE = 0x305C"
definition EGL_TEXTURE_FORMAT :: EGLint where "EGL_TEXTURE_FORMAT = 0x3080"
definition EGL_TEXTURE_TARGET :: EGLint where "EGL_TEXTURE_TARGET = 0x3081"
definition EGL_BACK_BUFFER :: EGLint where "EGL_BACK_BUFFER = 0x3084"
definition EGL_DISPLAY_SCALING :: EGLint where "EGL_DISPLAY_SCALING = 10000"
definition EGL_PBUFFER_BIT :: EGLint where "EGL_PBUFFER_BIT = 0x0001"
definition EGL_PIXMAP_BIT :: EGLint where "EGL_PIXMAP_BIT = 0x0002"
definition EGL_WINDOW_BIT :: EGLint where "EGL_WINDOW_BIT = 0x0004"
definition EGL_POST_SUB_BUFFER_SUPPORTED_NV :: EGLint where
  "EGL_POST_SUB_BUFFER_SUPPORTED_NV = 0x30BE"
definition EGL_FIXED_SIZE_ANGLE :: EGLint where "EGL_FIXED_SIZE_ANGLE = 0x3201"
definition EGL_DIRECT_COMPOSITION_ANGLE :: EGLint where
  "EGL_DIRECT_COMPOSITION_ANGLE = 0x33A5"
definition EGL_FLEXIBLE_SURFACE_COMPATIBILITY_SUPPORTED_ANGLE :: EGLint where
  "EGL_FLEXIBLE_SURFACE_COMPATIBILITY_SUPPORTED_ANGLE = 0x33A6"
definition EGL_SURFACE_ORIENTATION_ANGLE :: EGLint where
  "EGL_SURFACE_ORIENTATION_ANGLE = 0x33A8"

definition to_size_t :: "int \<Rightarrow> int" where
  \<comment> \<open>\<open>static_cast<size_t>\<close>: reduction modulo the word size\<close>
  "to_size_t x = x mod 2 ^ 64"

definition to_EGLint :: "int \<Rightarrow> EGLint" where
  \<comment> \<open>\<open>static_cast<EGLint>\<close>: the low 32 bits, read as two's complement\<close>
  "to_EGLint x = (x + 2 ^ 31) mod 2 ^ 32 - 2 ^ 31"

definition to_EGLenum :: "int \<Rightarrow> EGLenum" where
  \<comment> \<open>\<open>static_cast<EGLenum>\<close>: the low 32 bits, unsigned\<close>
  "to_EGLenum x = x mod 2 ^ 32"

definition is_EGLint :: "int \<Rightarrow> bool" where
  "is_EGLint x = (- (2 ^ 31) \<le> x \<and> x < 2 ^ 31)"

definition INT_MAX :: int where
  \<comment> \<open>the largest value of a 32-bit \<open>int\<close>\<close>
  "INT_MAX = 2147483647"

text \<open>
  Modelled from the spec: the attribute map (\<open>AttributeMap.h\<close> is not among the
  sources) is "an opaque key\<rightarrow>value attribute map, with defaults", offering
  \<open>get(key, default) -> value\<close>.
\<close>

type_synonym AttributeMap = "EGLAttrib \<rightharpoonup> EGLAttrib"

definition attr_get :: "AttributeMap \<Rightarrow> EGLAttrib \<Rightarrow> EGLAttrib \<Rightarrow> EGLAttrib" where
  "attr_get attributes key defaultValue =
     (case attributes key of Some v \<Rightarrow> v | None \<Rightarrow> defaultValue)"

section \<open>The collaborators of a Surface\<close>

text \<open>
  A texture and a display are known to the surface by their identity only. The backend
  (\<open>rx::SurfaceImpl\<close>, an abstract class implemented per platform) is a record of the
  answers its virtual methods give; an \<open>egl::Error\<close> is its status code, an error
  exactly when the code is not \<open>EGL_SUCCESS\<close>.
\<close>

type_synonym Texture = nat
type_synonym Display = nat
type_synonym Error = EGLint

definition isError :: "Error \<Rightarrow> bool" where
  "isError e = (e \<noteq> EGL_SUCCESS)"

record SurfaceImpl =
  impl_initialize :: "Display \<Rightarrow> Error"
  impl_getSwapBehavior :: EGLint
  impl_isPostSubBufferSupported :: EGLint
  impl_getWidth :: EGLint
  impl_getHeight :: EGLint
  impl_bindTexImage :: "Texture \<Rightarrow> EGLint \<Rightarrow> Error"
  impl_releaseTexImage :: "EGLint \<Rightarrow> Error"

record Config =
  renderTargetFormat :: int
  depthStencilFormat :: int
  samples :: int

datatype Framebuffer = DefaultFramebuffer

text \<open>
  Every call a surface makes on a collaborator, and the release of the surface's own
  storage, is logged in the order in which it happens.
\<close>

datatype call =
    Impl_initialize Display
  | Impl_bindTexImage Texture EGLint
  | Impl_releaseTexImage EGLint
  | Impl_destroy Display
  | Texture_bindTexImageFromSurface Texture
  | Texture_releaseTexImageFromSurface Texture
  | Framebuffer_destroyDefault Display
  | Delete_defaultFramebuffer
  | Delete_implementation
  | Delete_this

section \<open>The Surface object\<close>

record Surface =
  defaultFramebuffer :: "Framebuffer option"
  config :: Config
  mImplementation :: "SurfaceImpl option"
  mCurrentCount :: int
  mDestroyed :: bool
  mType :: EGLint
  mPostSubBufferRequested :: bool
  mFlexibleSurfaceCompatibilityRequested :: bool
  mDirectComposition :: bool
  mFixedSize :: bool
  mFixedWidth :: int
  mFixedHeight :: int
  mTextureFormat :: EGLenum
  mTextureTarget :: EGLenum
  mPixelAspectRatio :: EGLint
  mRenderBuffer :: EGLenum
  mSwapBehavior :: EGLenum
  mOrientation :: EGLint
  mTexture :: "Texture option"
  mBackFormat :: int
  mDSFormat :: int

text \<open>
  The current count is a machine \<open>int\<close> (32 bits, signed; its declaration in
  \<open>Surface.h\<close> is not among the sources). Its value is held in an \<open>int\<close> field, and
  the one place where the code could leave the range, \<open>mCurrentCount++\<close> at
  \<open>INT_MAX\<close>, is written out in \<open>setIsCurrent\<close>: a signed overflow is undefined
  behaviour in C++ and ends the execution with a fault.

  The world is the surface, absent once \<open>delete this\<close> has run, and the log of calls.
\<close>

record World =
  surface :: "Surface option"
  calls :: "call list"

text \<open>
  Modelled from the spec: the \<open>ASSERT\<close> macro (libANGLE's debug header is not among the
  sources). "Contract violations (double-bind, unbalanced current-count decrement, release
  without a bound texture) are programming errors [...] and should be treated as
  fatal/unreachable": a failed assertion ends the execution. So does each undefined
  behaviour of C++ that the code can run into: a call through a null pointer, a member
  call on a surface that has been deleted, and the overflow of the current count.
\<close>

datatype fault = AssertFailure | NullDereference | UseAfterFree | SignedOverflow

definition ASSERT :: "bool \<Rightarrow> fault + 'a \<Rightarrow> fault + 'a" where
  "ASSERT condition continue = (if condition then continue else Inl AssertFailure)"

subsection \<open>Construction\<close>

definition Surface_ctor :: "EGLint \<Rightarrow> Config \<Rightarrow> AttributeMap \<Rightarrow> Surface" where
  "Surface_ctor surfaceType configIn attributes =
     (let fixedSize = (attr_get attributes EGL_FIXED_SIZE_ANGLE EGL_FALSE = EGL_TRUE) in
      \<lparr> defaultFramebuffer = None,
        config = configIn,
        mImplementation = None,
        mCurrentCount = 0,
        mDestroyed = False,
        mType = surfaceType,
        mPostSubBufferRequested =
          (attr_get attributes EGL_POST_SUB_BUFFER_SUPPORTED_NV EGL_FALSE = EGL_TRUE),
        mFlexibleSurfaceCompatibilityRequested =
          (attr_get attributes EGL_FLEXIBLE_SURFACE_COMPATIBILITY_SUPPORTED_ANGLE EGL_FALSE
             = EGL_TRUE),
        mDirectComposition =
          (attr_get attributes EGL_DIRECT_COMPOSITION_ANGLE EGL_FALSE = EGL_TRUE),
        mFixedSize = fixedSize,
        mFixedWidth = (if fixedSize then to_size_t (attr_get attributes EGL_WIDTH 0) else 0),
        mFixedHeight = (if fixedSize then to_size_t (attr_get attributes EGL_HEIGHT 0) else 0),
        mTextureFormat =
          (if surfaceType \<noteq> EGL_WINDOW_BIT
           then to_EGLenum (attr_get attributes EGL_TEXTURE_FORMAT EGL_NO_TEXTURE)
           else EGL_NO_TEXTURE),
        mTextureTarget =
          (if surfaceType \<noteq> EGL_WINDOW_BIT
           then to_EGLenum (attr_get attributes EGL_TEXTURE_TARGET EGL_NO_TEXTURE)
           else EGL_NO_TEXTURE),
        mPixelAspectRatio = to_EGLint (1 * EGL_DISPLAY_SCALING),
        mRenderBuffer = EGL_BACK_BUFFER,
        mSwapBehavior = EGL_NONE,
        mOrientation = to_EGLint (attr_get attributes EGL_SURFACE_ORIENTATION_ANGLE 0),
        mTexture = None,
        mBackFormat = renderTargetFormat configIn,
        mDSFormat = depthStencilFormat configIn \<rparr>)"

text \<open>
  The three subclasses pass their kind to the base constructor and store what the
  backend factory (an external collaborator) hands back.
\<close>

definition WindowSurface :: "SurfaceImpl option \<Rightarrow> Config \<Rightarrow> AttributeMap \<Rightarrow> Surface" where
  "WindowSurface created configIn attribs =
     (Surface_ctor EGL_WINDOW_BIT configIn attribs)\<lparr>mImplementation := created\<rparr>"

definition PbufferSurface :: "SurfaceImpl option \<Rightarrow> Config \<Rightarrow> AttributeMap \<Rightarrow> Surface" where
  "PbufferSurface created configIn attribs =
     (Surface_ctor EGL_PBUFFER_BIT configIn attribs)\<lparr>mImplementation := created\<rparr>"

definition PixmapSurface :: "SurfaceImpl option \<Rightarrow> Config \<Rightarrow> AttributeMap \<Rightarrow> Surface" where
  "PixmapSurface created configIn attribs =
     (Surface_ctor EGL_PIXMAP_BIT configIn attribs)\<lparr>mImplementation := created\<rparr>"

definition newWorld :: "Surface \<Rightarrow> World" where
  "newWorld s = \<lparr> surface = Some s, calls = [] \<rparr>"

subsection \<open>Destruction\<close>

definition Surface_dtor :: "Surface \<Rightarrow> call list" where
  \<comment> \<open>the calls made by the body of \<open>~Surface\<close>\<close>
  "Surface_dtor s =
     (case mTexture s of
        Some t \<Rightarrow>
          (case mImplementation s of
             Some impl \<Rightarrow> [Impl_releaseTexImage EGL_BACK_BUFFER]
           | None \<Rightarrow> [])
          @ [Texture_releaseTexImageFromSurface t]
      | None \<Rightarrow> [])
     @ (case defaultFramebuffer s of Some fb \<Rightarrow> [Delete_defaultFramebuffer] | None \<Rightarrow> [])
     @ (case mImplementation s of Some impl \<Rightarrow> [Delete_implementation] | None \<Rightarrow> [])"

definition delete_this :: "World \<Rightarrow> fault + World" where
  \<comment> \<open>\<open>delete this\<close>: run the destructor, then release the storage\<close>
  "delete_this w =
     (case surface w of
        None \<Rightarrow> Inl UseAfterFree
      | Some s \<Rightarrow> Inr \<lparr> surface = None, calls = calls w @ Surface_dtor s @ [Delete_this] \<rparr>)"

definition destroy :: "Display \<Rightarrow> World \<Rightarrow> fault + World" where
  "destroy display w =
     (case surface w of
        None \<Rightarrow> Inl UseAfterFree
      | Some s \<Rightarrow>
          delete_this
            (w\<lparr>calls := calls w
                 @ (case defaultFramebuffer s of
                      Some fb \<Rightarrow> [Framebuffer_destroyDefault display] | None \<Rightarrow> [])
                 @ (case mImplementation s of
                      Some impl \<Rightarrow> [Impl_destroy display] | None \<Rightarrow> [])\<rparr>))"

subsection \<open>Initialisation and the current count\<close>

definition createDefaultFramebuffer :: "Framebuffer option" where
  \<comment> \<open>\<open>new gl::Framebuffer(this)\<close>\<close>
  "createDefaultFramebuffer = Some DefaultFramebuffer"

definition initialize :: "Display \<Rightarrow> World \<Rightarrow> fault + (Error \<times> World)" where
  "initialize display w =
     (case surface w of
        None \<Rightarrow> Inl UseAfterFree
      | Some s \<Rightarrow>
          (case mImplementation s of
             None \<Rightarrow> Inl NullDereference
           | Some impl \<Rightarrow>
               (let result = impl_initialize impl display;
                    cs = calls w @ [Impl_initialize display]
                in if isError result then Inr (result, w\<lparr>calls := cs\<rparr>)
                   else
                     (let s' = s\<lparr>mSwapBehavior := to_EGLenum (impl_getSwapBehavior impl),
                                 defaultFramebuffer := createDefaultFramebuffer\<rparr>
                      in ASSERT (defaultFramebuffer s' \<noteq> None)
                           (Inr (EGL_SUCCESS, \<lparr> surface = Some s', calls = cs \<rparr>))))))"

definition setIsCurrent :: "Display \<Rightarrow> bool \<Rightarrow> World \<Rightarrow> fault + World" where
  "setIsCurrent display isCurrent w =
     (case surface w of
        None \<Rightarrow> Inl UseAfterFree
      | Some s \<Rightarrow>
          if isCurrent then
            (if mCurrentCount s < INT_MAX
             then Inr (w\<lparr>surface := Some (s\<lparr>mCurrentCount := mCurrentCount s + 1\<rparr>)\<rparr>)
             else Inl SignedOverflow)
          else ASSERT (mCurrentCount s > 0)
            (let s' = s\<lparr>mCurrentCount := mCurrentCount s - 1\<rparr>;
                 w' = w\<lparr>surface := Some s'\<rparr>
             in if mCurrentCount s' = 0 \<and> mDestroyed s' then destroy display w' else Inr w'))"

definition onDestroy :: "Display \<Rightarrow> World \<Rightarrow> fault + World" where
  "onDestroy display w =
     (case surface w of
        None \<Rightarrow> Inl UseAfterFree
      | Some s \<Rightarrow>
          (let s' = s\<lparr>mDestroyed := True\<rparr>;
               w' = w\<lparr>surface := Some s'\<rparr>
           in if mCurrentCount s' = 0 then destroy display w' else Inr w'))"

subsection \<open>Queries\<close>

definition isPostSubBufferSupported :: "Surface \<Rightarrow> fault + EGLint" where
  \<comment> \<open>\<open>&&\<close> evaluates the backend only when the request flag is set; the \<open>bool\<close> is
      returned as an \<open>EGLint\<close>\<close>
  "isPostSubBufferSupported s =
     (if \<not> mPostSubBufferRequested s then Inr 0
      else case mImplementation s of
             None \<Rightarrow> Inl NullDereference
           | Some impl \<Rightarrow> Inr (if impl_isPostSubBufferSupported impl \<noteq> 0 then 1 else 0))"

definition getWidth :: "Surface \<Rightarrow> fault + EGLint" where
  "getWidth s =
     (if mFixedSize s then Inr (to_EGLint (mFixedWidth s))
      else case mImplementation s of
             None \<Rightarrow> Inl NullDereference
           | Some impl \<Rightarrow> Inr (impl_getWidth impl))"

definition getHeight :: "Surface \<Rightarrow> fault + EGLint" where
  "getHeight s =
     (if mFixedSize s then Inr (to_EGLint (mFixedHeight s))
      else case mImplementation s of
             None \<Rightarrow> Inl NullDereference
           | Some impl \<Rightarrow> Inr (impl_getHeight impl))"

definition getTextureFormat :: "Surface \<Rightarrow> EGLenum" where
  "getTextureFormat s = mTextureFormat s"

definition getTextureTarget :: "Surface \<Rightarrow> EGLenum" where
  "getTextureTarget s = mTextureTarget s"

subsection \<open>Texture binding\<close>

text \<open>
  \<open>ANGLE_TRY\<close> returns the backend's error to the caller at once; the surface is then
  left as it was.
\<close>

definition bindTexImage :: "Texture \<Rightarrow> EGLint \<Rightarrow> World \<Rightarrow> fault + (Error \<times> World)" where
  "bindTexImage texture buffer w =
     (case surface w of
        None \<Rightarrow> Inl UseAfterFree
      | Some s \<Rightarrow>
          ASSERT (mTexture s = None)
            (case mImplementation s of
               None \<Rightarrow> Inl NullDereference
             | Some impl \<Rightarrow>
                 (let result = impl_bindTexImage impl texture buffer;
                      cs = calls w @ [Impl_bindTexImage texture buffer]
                  in if isError result then Inr (result, w\<lparr>calls := cs\<rparr>)
                     else Inr (EGL_SUCCESS,
                       \<lparr> surface = Some (s\<lparr>mTexture := Some texture\<rparr>),
                         calls = cs @ [Texture_bindTexImageFromSurface texture] \<rparr>))))"

definition releaseTexImage :: "EGLint \<Rightarrow> World \<Rightarrow> fault + (Error \<times> World)" where
  "releaseTexImage buffer w =
     (case surface w of
        None \<Rightarrow> Inl UseAfterFree
      | Some s \<Rightarrow>
          (case mImplementation s of
             None \<Rightarrow> Inl NullDereference
           | Some impl \<Rightarrow>
               (let result = impl_releaseTexImage impl buffer;
                    cs = calls w @ [Impl_releaseTexImage buffer]
                in if isError result then Inr (result, w\<lparr>calls := cs\<rparr>)
                   else ASSERT (mTexture s \<noteq> None)
                     (case mTexture s of
                        None \<Rightarrow> Inl NullDereference
                      | Some t \<Rightarrow>
                          Inr (EGL_SUCCESS,
                            \<lparr> surface = Some (s\<lparr>mTexture := None\<rparr>),
                              calls = cs @ [Texture_releaseTexImageFromSurface t] \<rparr>)))))"

definition releaseTexImageFromTexture :: "World \<Rightarrow> fault + World" where
  "releaseTexImageFromTexture w =
     (case surface w of
        None \<Rightarrow> Inl UseAfterFree
      | Some s \<Rightarrow>
          ASSERT (mTexture s \<noteq> None) (Inr (w\<lparr>surface := Some (s\<lparr>mTexture := None\<rparr>)\<rparr>)))"

subsection \<open>Sequences of operations\<close>

datatype op =
    Initialize
  | SetIsCurrent bool
  | OnDestroy
  | BindTexImage Texture EGLint
  | ReleaseTexImage EGLint
  | ReleaseTexImageFromTexture

fun step :: "Display \<Rightarrow> World \<Rightarrow> op \<Rightarrow> fault + World" where
  "step d w Initialize = map_sum id snd (initialize d w)"
| "step d w (SetIsCurrent b) = setIsCurrent d b w"
| "step d w OnDestroy = onDestroy d w"
| "step d w (BindTexImage t b) = map_sum id snd (bindTexImage t b w)"
| "step d w (ReleaseTexImage b) = map_sum id snd (releaseTexImage b w)"
| "step d w ReleaseTexImageFromTexture = releaseTexImageFromTexture w"

fun run :: "Display \<Rightarrow> World \<Rightarrow> op list \<Rightarrow> fault + World" where
  "run d w [] = Inr w"
| "run d w (x # xs) = (case step d w x of Inl f \<Rightarrow> Inl f | Inr w' \<Rightarrow> run d w' xs)"

text \<open>What a sequence adds to the current count, and how often a log shows a teardown.\<close>

fun netCount :: "op list \<Rightarrow> int" where
  "netCount [] = 0"
| "netCount (SetIsCurrent True # xs) = 1 + netCount xs"
| "netCount (SetIsCurrent False # xs) = netCount xs - 1"
| "netCount (x # xs) = netCount xs"

definition teardowns :: "World \<Rightarrow> nat" where
  "teardowns w = count_list (calls w) Delete_this"

fun precedes :: "'a \<Rightarrow> 'a \<Rightarrow> 'a list \<Rightarrow> bool" where
  "precedes a b [] = False"
| "precedes a b (x # xs) = (if x = a then b \<in> set xs else precedes a b xs)"

text \<open>
  What one operation does to the count, the destroyed flag and the number of teardowns:
  either the surface is gone (its flag was set, the count came to zero and one more
  teardown is logged) or it lives on with the count and flag brought up to date.
\<close>

definition stepEffect :: "Surface \<Rightarrow> World \<Rightarrow> op \<Rightarrow> World \<Rightarrow> bool" where
  "stepEffect s w x w' =
     (case surface w' of
        None \<Rightarrow> (mDestroyed s \<or> x = OnDestroy) \<and> mCurrentCount s + netCount [x] = 0
                 \<and> teardowns w' = Suc (teardowns w)
      | Some s' \<Rightarrow> mCurrentCount s' = mCurrentCount s + netCount [x]
                 \<and> mDestroyed s' = (mDestroyed s \<or> x = OnDestroy)
                 \<and> teardowns w' = teardowns w)"

text \<open>Whether an operation is a \<open>bindTexImage\<close> that the backend accepts.\<close>

fun bindSucceeds :: "SurfaceImpl option \<Rightarrow> op \<Rightarrow> bool" where
  "bindSucceeds (Some impl) (BindTexImage t b) = (\<not> isError (impl_bindTexImage impl t b))"
| "bindSucceeds created x = False"

subsection \<open>Example surfaces\<close>

text \<open>
  A backend that accepts every request and reports a live size of 1024 by 768, and
  attributes that ask for a fixed size of 800 by 600, for post-sub-buffer support, and
  for an RGB 2D texture (\<open>EGL_TEXTURE_RGB = 0x305D\<close>, \<open>EGL_TEXTURE_2D = 0x305F\<close>).
\<close>

definition exampleImpl :: SurfaceImpl where
  "exampleImpl =
     \<lparr> impl_initialize = (\<lambda>d. EGL_SUCCESS), impl_getSwapBehavior = 0x3094,
       impl_isPostSubBufferSupported = 1, impl_getWidth = 1024, impl_getHeight = 768,
       impl_bindTexImage = (\<lambda>t b. EGL_SUCCESS), impl_releaseTexImage = (\<lambda>b. EGL_SUCCESS) \<rparr>"

definition exampleConfig :: Config where
  "exampleConfig = \<lparr> renderTargetFormat = 0x8058, depthStencilFormat = 0x88F0, samples = 0 \<rparr>"

definition exampleAttributes :: AttributeMap where
  "exampleAttributes =
     [EGL_FIXED_SIZE_ANGLE \<mapsto> EGL_TRUE, EGL_WIDTH \<mapsto> 800, EGL_HEIGHT \<mapsto> 600,
      EGL_POST_SUB_BUFFER_SUPPORTED_NV \<mapsto> EGL_TRUE,
      EGL_TEXTURE_FORMAT \<mapsto> 0x305D, EGL_TEXTURE_TARGET \<mapsto> 0x305F]"

definition exampleWindow :: Surface where
  "exampleWindow = WindowSurface (Some exampleImpl) exampleConfig exampleAttributes"

definition examplePbuffer :: Surface where
  "examplePbuffer = PbufferSurface (Some exampleImpl) exampleConfig exampleAttributes"

section \<open>FetchOptions\<close>

text \<open>
  The five enumerations of \<open>FetchOptions\<close>, each enumerator prefixed with the name of
  its \<open>enum class\<close>.
\<close>

datatype Destination =
    Destination_EmptyString | Destination_Audio | Destination_Document | Destination_Embed
  | Destination_Font | Destination_Image | Destination_Manifest | Destination_Object
  | Destination_Report | Destination_Script | Destination_Serviceworker
  | Destination_Sharedworker | Destination_Style | Destination_Track | Destination_Video
  | Destination_Worker | Destination_Xslt

datatype Mode = Mode_Navigate | Mode_SameOrigin | Mode_NoCors | Mode_Cors

datatype Credentials = Credentials_Omit | Credentials_SameOrigin | Credentials_Include

datatype Cache =
    Cache_Default | Cache_NoStore | Cache_Reload | Cache_NoCache | Cache_ForceCache
  | Cache_OnlyIfCached

datatype Redirect = Redirect_Follow | Redirect_Error | Redirect_Manual

text \<open>
  \<open>ReferrerPolicy\<close> comes from \<open>ReferrerPolicy.h\<close> and \<open>String\<close> from
  \<open>wtf/text/WTFString.h\<close>, neither among the sources; \<open>FetchOptions.h\<close> names only
  the enumerator \<open>ReferrerPolicy::EmptyString\<close>. Nothing below depends on what the other
  enumerators are.
\<close>

datatype ReferrerPolicy =
    ReferrerPolicy_EmptyString | ReferrerPolicy_NoReferrer
  | ReferrerPolicy_NoReferrerWhenDowngrade | ReferrerPolicy_SameOrigin
  | ReferrerPolicy_Origin | ReferrerPolicy_StrictOrigin
  | ReferrerPolicy_OriginWhenCrossOrigin | ReferrerPolicy_StrictOriginWhenCrossOrigin
  | ReferrerPolicy_UnsafeUrl

type_synonym String = string

record FetchOptions =
  destination :: Destination
  mode :: Mode
  credentials :: Credentials
  cache :: Cache
  redirect :: Redirect
  referrerPolicy :: ReferrerPolicy
  integrity :: String
  keepAlive :: bool

text \<open>The default member initialisers (\<open>FetchOptions() = default\<close>).\<close>

definition FetchOptions_default :: FetchOptions where
  "FetchOptions_default =
     \<lparr> destination = Destination_EmptyString, mode = Mode_NoCors,
       credentials = Credentials_Omit, cache = Cache_Default, redirect = Redirect_Follow,
       referrerPolicy = ReferrerPolicy_EmptyString, integrity = [], keepAlive = False \<rparr>"

text \<open>\<open>EnumTraits<E>::values\<close>: the enumerators a decoder may accept for \<open>E\<close>.\<close>

definition Destination_values :: "Destination list" where
  "Destination_values =
     [Destination_EmptyString, Destination_Audio, Destination_Document, Destination_Embed,
      Destination_Font, Destination_Image, Destination_Manifest, Destination_Object,
      Destination_Report, Destination_Script, Destination_Serviceworker,
      Destination_Sharedworker, Destination_Style, Destination_Track, Destination_Video,
      Destination_Worker, Destination_Xslt]"

definition Mode_values :: "Mode list" where
  "Mode_values = [Mode_Navigate, Mode_SameOrigin, Mode_NoCors, Mode_Cors]"

definition Credentials_values :: "Credentials list" where
  "Credentials_values = [Credentials_Omit, Credentials_SameOrigin, Credentials_Include]"

definition Cache_values :: "Cache list" where
  "Cache_values =
     [Cache_Default, Cache_NoStore, Cache_Reload, Cache_NoCache, Cache_ForceCache,
      Cache_OnlyIfCached]"

definition Redirect_values :: "Redirect list" where
  "Redirect_values = [Redirect_Follow, Redirect_Error, Redirect_Manual]"

text \<open>
  \<open>encode\<close> and \<open>decode\<close> are templates over an \<open>Encoder\<close> and a \<open>Decoder\<close> class.
  The encoder is the stream written so far, and \<open>encoder << x\<close> appends the coding of
  \<open>x\<close>; the decoder is the stream still to be read, and \<open>decoder.decode(x)\<close> consumes
  some of it and either yields a value or fails. How a value of each field type is coded
  is the template argument's business: it is a parameter, one pair of functions per type.
\<close>

record 'b Coders =
  encodeDestination :: "Destination \<Rightarrow> 'b list"
  decodeDestination :: "'b list \<Rightarrow> Destination option \<times> 'b list"
  encodeMode :: "Mode \<Rightarrow> 'b list"
  decodeMode :: "'b list \<Rightarrow> Mode option \<times> 'b list"
  encodeCredentials :: "Credentials \<Rightarrow> 'b list"
  decodeCredentials :: "'b list \<Rightarrow> Credentials option \<times> 'b list"
  encodeCache :: "Cache \<Rightarrow> 'b list"
  decodeCache :: "'b list \<Rightarrow> Cache option \<times> 'b list"
  encodeRedirect :: "Redirect \<Rightarrow> 'b list"
  decodeRedirect :: "'b list \<Rightarrow> Redirect option \<times> 'b list"
  encodeReferrerPolicy :: "ReferrerPolicy \<Rightarrow> 'b list"
  decodeReferrerPolicy :: "'b list \<Rightarrow> ReferrerPolicy option \<times> 'b list"
  encodeString :: "String \<Rightarrow> 'b list"
  decodeString :: "'b list \<Rightarrow> String option \<times> 'b list"
  encodeBool :: "bool \<Rightarrow> 'b list"
  decodeBool :: "'b list \<Rightarrow> bool option \<times> 'b list"

definition encode :: "'b Coders \<Rightarrow> FetchOptions \<Rightarrow> 'b list \<Rightarrow> 'b list" where
  "encode c options encoder =
     (let e1 = encoder @ encodeDestination c (destination options);
          e2 = e1 @ encodeMode c (mode options);
          e3 = e2 @ encodeCredentials c (credentials options);
          e4 = e3 @ encodeCache c (cache options);
          e5 = e4 @ encodeRedirect c (redirect options);
          e6 = e5 @ encodeReferrerPolicy c (referrerPolicy options);
          e7 = e6 @ encodeString c (integrity options)
      in e7 @ encodeBool c (keepAlive options))"

definition decode :: "'b Coders \<Rightarrow> 'b list \<Rightarrow> FetchOptions \<Rightarrow> bool \<times> 'b list \<times> FetchOptions" where
  "decode c decoder options =
     (case decodeDestination c decoder of
        (None, d1) \<Rightarrow> (False, d1, options)
      | (Some destination', d1) \<Rightarrow>
     (case decodeMode c d1 of
        (None, d2) \<Rightarrow> (False, d2, options)
      | (Some mode', d2) \<Rightarrow>
     (case decodeCredentials c d2 of
        (None, d3) \<Rightarrow> (False, d3, options)
      | (Some credentials', d3) \<Rightarrow>
     (case decodeCache c d3 of
        (None, d4) \<Rightarrow> (False, d4, options)
      | (Some cache', d4) \<Rightarrow>
     (case decodeRedirect c d4 of
        (None, d5) \<Rightarrow> (False, d5, options)
      | (Some redirect', d5) \<Rightarrow>
     (case decodeReferrerPolicy c d5 of
        (None, d6) \<Rightarrow> (False, d6, options)
      | (Some referrerPolicy', d6) \<Rightarrow>
     (case decodeString c d6 of
        (None, d7) \<Rightarrow> (False, d7, options)
      | (Some integrity', d7) \<Rightarrow>
     (case decodeBool c d7 of
        (None, d8) \<Rightarrow> (False, d8, options)
      | (Some keepAlive', d8) \<Rightarrow>
          (True, d8,
           options\<lparr>destination := destination', mode := mode', credentials := credentials',
                   cache := cache', redirect := redirect', referrerPolicy := referrerPolicy',
                   integrity := integrity', keepAlive := keepAlive'\<rparr>)))))))))"

text \<open>
  An encoder and a decoder fit together when the decoder reads back each value the
  encoder wrote, and stops right behind it.
\<close>

definition roundTrips :: "('a \<Rightarrow> 'b list) \<Rightarrow> ('b list \<Rightarrow> 'a option \<times> 'b list) \<Rightarrow> bool" where
  "roundTrips enc dec = (\<forall>x rest. dec (enc x @ rest) = (Some x, rest))"

definition codersRoundTrip :: "'b Coders \<Rightarrow> bool" where
  "codersRoundTrip c =
     (roundTrips (encodeDestination c) (decodeDestination c)
      \<and> roundTrips (encodeMode c) (decodeMode c)
      \<and> roundTrips (encodeCredentials c) (decodeCredentials c)
      \<and> roundTrips (encodeCache c) (decodeCache c)
      \<and> roundTrips (encodeRedirect c) (decodeRedirect c)
      \<and> roundTrips (encodeReferrerPolicy c) (decodeReferrerPolicy c)
      \<and> roundTrips (encodeString c) (decodeString c)
      \<and> roundTrips (encodeBool c) (decodeBool c))"

subsection \<open>An example encoder and decoder\<close>

text \<open>
  A coder over a stream of numbers that makes the use of \<open>EnumTraits\<close> it is written
  for: an enumerator travels as its position in \<open>values\<close>, and a number is decoded only
  if it is the position of a listed enumerator. A string travels as its length and its
  characters, a \<open>bool\<close> as 0 or 1.
\<close>

fun indexOf :: "'a \<Rightarrow> 'a list \<Rightarrow> nat" where
  "indexOf x [] = 0"
| "indexOf x (y # ys) = (if x = y then 0 else Suc (indexOf x ys))"

definition encodeEnum :: "'a list \<Rightarrow> 'a \<Rightarrow> nat list" where
  "encodeEnum values x = [indexOf x values]"

definition decodeEnum :: "'a list \<Rightarrow> nat list \<Rightarrow> 'a option \<times> nat list" where
  "decodeEnum values d =
     (case d of
        [] \<Rightarrow> (None, [])
      | n # rest \<Rightarrow> (if n < length values then Some (values ! n) else None, rest))"

definition ReferrerPolicy_values :: "ReferrerPolicy list" where
  "ReferrerPolicy_values =
     [ReferrerPolicy_EmptyString, ReferrerPolicy_NoReferrer,
      ReferrerPolicy_NoReferrerWhenDowngrade, ReferrerPolicy_SameOrigin,
      ReferrerPolicy_Origin, ReferrerPolicy_StrictOrigin,
      ReferrerPolicy_OriginWhenCrossOrigin, ReferrerPolicy_StrictOriginWhenCrossOrigin,
      ReferrerPolicy_UnsafeUrl]"

definition exampleEncodeString :: "String \<Rightarrow> nat list" where
  "exampleEncodeString s = length s # map of_char s"

definition exampleDecodeString :: "nat list \<Rightarrow> String option \<times> nat list" where
  "exampleDecodeString d =
     (case d of
        [] \<Rightarrow> (None, [])
      | n # rest \<Rightarrow>
          if length rest < n then (None, rest)
          else (Some (map char_of (take n rest)), drop n rest))"

definition exampleEncodeBool :: "bool \<Rightarrow> nat list" where
  "exampleEncodeBool b = [if b then 1 else 0]"

definition exampleDecodeBool :: "nat list \<Rightarrow> bool option \<times> nat list" where
  "exampleDecodeBool d =
     (case d of
        [] \<Rightarrow> (None, [])
      | n # rest \<Rightarrow> (if n = 0 then Some False else if n = 1 then Some True else None, rest))"

definition exampleCoders :: "nat Coders" where
  "exampleCoders =
     \<lparr> encodeDestination = encodeEnum Destination_values,
       decodeDestination = decodeEnum Destination_values,
       encodeMode = encodeEnum Mode_values,
       decodeMode = decodeEnum Mode_values,
       encodeCredentials = encodeEnum Credentials_values,
       decodeCredentials = decodeEnum Credentials_values,
       encodeCache = encodeEnum Cache_values,
       decodeCache = decodeEnum Cache_values,
       encodeRedirect = encodeEnum Redirect_values,
       decodeRedirect = decodeEnum Redirect_values,
       encodeReferrerPolicy = encodeEnum ReferrerPolicy_values,
       decodeReferrerPolicy = decodeEnum ReferrerPolicy_values,
       encodeString = exampleEncodeString,
       decodeString = exampleDecodeString,
       encodeBool = exampleEncodeBool,
       decodeBool = exampleDecodeBool \<rparr>"

definition exampleOptions :: FetchOptions where
  "exampleOptions =
     \<lparr> destination = Destination_Image, mode = Mode_Cors, credentials = Credentials_Include,
       cache = Cache_NoStore, redirect = Redirect_Manual,
       referrerPolicy = ReferrerPolicy_Origin, integrity = ''abc'', keepAlive = True \<rparr>"

section \<open>Auxiliary facts\<close>

lemmas EGL_defs =
  EGL_FALSE_def EGL_TRUE_def EGL_SUCCESS_def EGL_NONE_def EGL_HEIGHT_def EGL_WIDTH_def
  EGL_NO_TEXTURE_def EGL_TEXTURE_FORMAT_def EGL_TEXTURE_TARGET_def EGL_BACK_BUFFER_def
  EGL_DISPLAY_SCALING_def EGL_PBUFFER_BIT_def EGL_PIXMAP_BIT_def EGL_WINDOW_BIT_def
  EGL_POST_SUB_BUFFER_SUPPORTED_NV_def EGL_FIXED_SIZE_ANGLE_def
  EGL_DIRECT_COMPOSITION_ANGLE_def EGL_FLEXIBLE_SURFACE_COMPATIBILITY_SUPPORTED_ANGLE_def
  EGL_SURFACE_ORIENTATION_ANGLE_def

lemmas method_defs =
  INT_MAX_def to_EGLenum_def initialize_def createDefaultFramebuffer_def setIsCurrent_def
  onDestroy_def bindTexImage_def releaseTexImage_def
  releaseTexImageFromTexture_def ASSERT_def isError_def destroy_def delete_this_def
  Surface_dtor_def Let_def

lemmas example_defs =
  newWorld_def examplePbuffer_def exampleWindow_def PbufferSurface_def WindowSurface_def
  Surface_ctor_def exampleImpl_def exampleConfig_def exampleAttributes_def attr_get_def

lemmas exampleCoder_defs =
  exampleCoders_def encodeEnum_def decodeEnum_def exampleEncodeString_def
  exampleDecodeString_def exampleEncodeBool_def exampleDecodeBool_def Destination_values_def
  Mode_values_def Credentials_values_def Cache_values_def Redirect_values_def
  ReferrerPolicy_values_def

subsection \<open>Conversions\<close>

lemma to_EGLint_to_size_t: "is_EGLint x \<Longrightarrow> to_EGLint (to_size_t x) = x"
proof -
  assume r: "is_EGLint x"
  have "(x mod 2 ^ 64 + 2 ^ 31) mod 2 ^ 32 = (x + 2 ^ 31) mod (2 ^ 32 :: int)"
  proof -
    have "(2 ^ 32 :: int) dvd 2 ^ 64" by (simp add: le_imp_power_dvd)
    then have "(x mod 2 ^ 64) mod 2 ^ 32 = x mod (2 ^ 32 :: int)" by (rule mod_mod_cancel)
    then show ?thesis by (metis mod_add_left_eq)
  qed
  moreover have "(x + 2 ^ 31) mod (2 ^ 32 :: int) = x + 2 ^ 31"
    using r by (simp add: is_EGLint_def)
  ultimately show ?thesis by (simp add: to_EGLint_def to_size_t_def)
qed

subsection \<open>Teardown and the effect of one operation\<close>

lemma destroy_live:
  "surface w = Some s \<Longrightarrow>
   destroy d w = Inr \<lparr> surface = None,
     calls = calls w
       @ (case defaultFramebuffer s of Some fb \<Rightarrow> [Framebuffer_destroyDefault d] | None \<Rightarrow> [])
       @ (case mImplementation s of Some impl \<Rightarrow> [Impl_destroy d] | None \<Rightarrow> [])
       @ Surface_dtor s @ [Delete_this] \<rparr>"
  by (simp add: destroy_def delete_this_def)

lemma count_Delete_this_dtor: "count_list (Surface_dtor s) Delete_this = 0"
  by (simp add: Surface_dtor_def split: option.splits)

lemma destroy_teardowns:
  "surface w = Some s \<Longrightarrow> destroy d w = Inr w' \<Longrightarrow>
   surface w' = None \<and> teardowns w' = Suc (teardowns w)"
  by (auto simp: destroy_live teardowns_def count_Delete_this_dtor split: option.splits)

lemma step_dead: "surface w = None \<Longrightarrow> step d w x = Inl UseAfterFree"
  by (cases x)
     (simp_all add: initialize_def setIsCurrent_def onDestroy_def bindTexImage_def
        releaseTexImage_def releaseTexImageFromTexture_def)

lemma run_dead: "surface w = None \<Longrightarrow> run d w xs = Inr w' \<Longrightarrow> xs = [] \<and> w' = w"
  by (cases xs) (simp_all add: step_dead)

lemma netCount_Cons: "netCount (x # xs) = netCount [x] + netCount xs"
proof (cases x)
  case (SetIsCurrent b)
  then show ?thesis by (cases b) simp_all
qed simp_all

lemma run_append:
  "run d w (xs @ ys) = (case run d w xs of Inl f \<Rightarrow> Inl f | Inr w' \<Rightarrow> run d w' ys)"
  by (induction xs arbitrary: w) (simp_all split: sum.splits)

lemma setIsCurrent_effect:
  assumes "surface w = Some s" and "setIsCurrent d b w = Inr w'"
  shows "stepEffect s w (SetIsCurrent b) w'"
proof (cases b)
  case True
  with assms show ?thesis
    by (auto simp: setIsCurrent_def stepEffect_def teardowns_def split: if_splits)
next
  case False
  with assms have pos: "mCurrentCount s > 0"
    by (auto simp: setIsCurrent_def ASSERT_def split: if_splits)
  show ?thesis
  proof (cases "mCurrentCount s - 1 = 0 \<and> mDestroyed s")
    case True
    with assms False pos
    have "destroy d (w\<lparr>surface := Some (s\<lparr>mCurrentCount := mCurrentCount s - 1\<rparr>)\<rparr>) = Inr w'"
      by (simp add: setIsCurrent_def ASSERT_def Let_def)
    from destroy_teardowns [OF _ this] True False show ?thesis
      by (simp add: stepEffect_def teardowns_def)
  next
    case nd: False
    with assms False pos
    have "w' = w\<lparr>surface := Some (s\<lparr>mCurrentCount := mCurrentCount s - 1\<rparr>)\<rparr>"
      by (auto simp: setIsCurrent_def ASSERT_def Let_def)
    with False show ?thesis by (simp add: stepEffect_def teardowns_def)
  qed
qed

lemma onDestroy_effect:
  assumes "surface w = Some s" and "onDestroy d w = Inr w'"
  shows "stepEffect s w OnDestroy w'"
proof (cases "mCurrentCount s = 0")
  case True
  with assms have "destroy d (w\<lparr>surface := Some (s\<lparr>mDestroyed := True\<rparr>)\<rparr>) = Inr w'"
    by (simp add: onDestroy_def Let_def)
  from destroy_teardowns [OF _ this] True show ?thesis
    by (simp add: stepEffect_def teardowns_def)
next
  case False
  with assms have "w' = w\<lparr>surface := Some (s\<lparr>mDestroyed := True\<rparr>)\<rparr>"
    by (simp add: onDestroy_def Let_def)
  then show ?thesis by (simp add: stepEffect_def teardowns_def)
qed

lemma step_effect:
  assumes "surface w = Some s" and "step d w x = Inr w'"
  shows "stepEffect s w x w'"
proof (cases x)
  case Initialize
  with assms show ?thesis
    by (auto simp: initialize_def createDefaultFramebuffer_def ASSERT_def stepEffect_def
        teardowns_def Let_def split: option.splits if_splits)
next
  case (SetIsCurrent b)
  with assms show ?thesis by (simp add: setIsCurrent_effect)
next
  case OnDestroy
  with assms show ?thesis by (simp add: onDestroy_effect)
next
  case (BindTexImage t b)
  with assms show ?thesis
    by (auto simp: bindTexImage_def ASSERT_def stepEffect_def teardowns_def Let_def
        split: option.splits if_splits)
next
  case (ReleaseTexImage b)
  with assms show ?thesis
    by (auto simp: releaseTexImage_def ASSERT_def stepEffect_def teardowns_def Let_def
        split: option.splits if_splits)
next
  case ReleaseTexImageFromTexture
  with assms show ?thesis
    by (auto simp: releaseTexImageFromTexture_def ASSERT_def stepEffect_def teardowns_def
        split: option.splits if_splits)
qed

lemma run_effect:
  assumes "surface w = Some s" and "run d w xs = Inr w'"
  shows "case surface w' of
           None \<Rightarrow> (mDestroyed s \<or> OnDestroy \<in> set xs) \<and> mCurrentCount s + netCount xs = 0
                    \<and> teardowns w' = Suc (teardowns w)
         | Some s' \<Rightarrow> mCurrentCount s' = mCurrentCount s + netCount xs
                    \<and> mDestroyed s' = (mDestroyed s \<or> OnDestroy \<in> set xs)
                    \<and> teardowns w' = teardowns w"
  using assms
proof (induction xs arbitrary: w s)
  case Nil
  then show ?case by simp
next
  case (Cons x xs)
  from Cons.prems obtain w1 where s1: "step d w x = Inr w1" and r: "run d w1 xs = Inr w'"
    by (auto split: sum.splits)
  from step_effect [OF Cons.prems(1) s1] have e: "stepEffect s w x w1" .
  show ?case
  proof (cases "surface w1")
    case None
    with r have "xs = []" "w' = w1" using run_dead by blast+
    with e None show ?thesis by (auto simp: stepEffect_def)
  next
    case (Some s1)
    from Cons.IH [OF Some r] e Some show ?thesis
      by (auto simp: stepEffect_def netCount_Cons [of x xs] split: option.splits)
  qed
qed

subsection \<open>Releasing the surface until the count is zero\<close>

lemma run_release_partial:
  assumes "surface w = Some s" and "int k < mCurrentCount s"
  shows "run d w (replicate k (SetIsCurrent False))
           = Inr (w\<lparr>surface := Some (s\<lparr>mCurrentCount := mCurrentCount s - int k\<rparr>)\<rparr>)"
  using assms
proof (induction k arbitrary: w s)
  case 0
  then show ?case by simp
next
  case (Suc k)
  let ?s1 = "s\<lparr>mCurrentCount := mCurrentCount s - 1\<rparr>"
  let ?w1 = "w\<lparr>surface := Some ?s1\<rparr>"
  from Suc.prems have "setIsCurrent d False w = Inr ?w1"
    by (simp add: setIsCurrent_def ASSERT_def Let_def)
  moreover have "run d ?w1 (replicate k (SetIsCurrent False))
      = Inr (?w1\<lparr>surface := Some (?s1\<lparr>mCurrentCount := mCurrentCount ?s1 - int k\<rparr>)\<rparr>)"
    using Suc.prems by (intro Suc.IH) simp_all
  ultimately show ?case by simp
qed

lemma run_release_last:
  assumes "surface w = Some s" and "mCurrentCount s = int (Suc k)" and "mDestroyed s"
  shows "\<exists>w'. run d w (replicate (Suc k) (SetIsCurrent False)) = Inr w'
           \<and> surface w' = None \<and> teardowns w' = Suc (teardowns w)"
proof -
  let ?s1 = "s\<lparr>mCurrentCount := mCurrentCount s - int k\<rparr>"
  let ?w1 = "w\<lparr>surface := Some ?s1\<rparr>"
  have p: "run d w (replicate k (SetIsCurrent False)) = Inr ?w1"
    using assms by (intro run_release_partial) simp_all
  have one: "mCurrentCount ?s1 = 1" using assms by simp
  let ?w2 = "?w1\<lparr>surface := Some (?s1\<lparr>mCurrentCount := mCurrentCount ?s1 - 1\<rparr>)\<rparr>"
  obtain w' where dw: "destroy d ?w2 = Inr w'"
    by (simp add: destroy_live)
  from destroy_teardowns [OF _ dw] have "surface w' = None" "teardowns w' = Suc (teardowns w)"
    by (simp_all add: teardowns_def)
  moreover have "setIsCurrent d False ?w1 = Inr w'"
    using one assms(3) dw by (simp add: setIsCurrent_def ASSERT_def Let_def)
  then have "run d w (replicate k (SetIsCurrent False) @ [SetIsCurrent False]) = Inr w'"
    using p by (simp add: run_append)
  then have "run d w (replicate (Suc k) (SetIsCurrent False)) = Inr w'"
    by (simp add: replicate_append_same)
  ultimately show ?thesis by blast
qed

subsection \<open>The texture binding along a run\<close>

lemma step_keeps_unbound:
  assumes "surface w = Some s" and "step d w x = Inr w'" and "surface w' = Some s'"
  shows "mImplementation s' = mImplementation s
       \<and> (mTexture s = None \<and> \<not> bindSucceeds (mImplementation s) x \<longrightarrow> mTexture s' = None)"
proof (cases x)
  case Initialize
  with assms show ?thesis
    by (auto simp: initialize_def createDefaultFramebuffer_def ASSERT_def Let_def
        split: option.splits if_splits)
next
  case (SetIsCurrent b)
  with assms show ?thesis
    by (auto simp: setIsCurrent_def ASSERT_def Let_def destroy_live split: if_splits)
next
  case OnDestroy
  with assms show ?thesis
    by (auto simp: onDestroy_def Let_def destroy_live split: if_splits)
next
  case (BindTexImage t b)
  with assms show ?thesis
    by (auto simp: bindTexImage_def ASSERT_def Let_def split: option.splits if_splits)
next
  case (ReleaseTexImage b)
  with assms show ?thesis
    by (auto simp: releaseTexImage_def ASSERT_def Let_def split: option.splits if_splits)
next
  case ReleaseTexImageFromTexture
  with assms show ?thesis
    by (auto simp: releaseTexImageFromTexture_def ASSERT_def split: if_splits)
qed

lemma run_keeps_unbound:
  assumes "surface w = Some s" and "run d w xs = Inr w'" and "surface w' = Some s'"
    and "mTexture s = None" and "\<not> (\<exists>x\<in>set xs. bindSucceeds (mImplementation s) x)"
  shows "mImplementation s' = mImplementation s \<and> mTexture s' = None"
  using assms
proof (induction xs arbitrary: w s)
  case Nil
  then show ?case by simp
next
  case (Cons x xs)
  from Cons.prems obtain w1 where s1: "step d w x = Inr w1" and r: "run d w1 xs = Inr w'"
    by (auto split: sum.splits)
  show ?case
  proof (cases "surface w1")
    case None
    with r have "w' = w1" using run_dead by blast
    with None Cons.prems(3) show ?thesis by simp
  next
    case (Some s1)
    from step_keeps_unbound [OF Cons.prems(1) s1 Some] Cons.prems(4,5)
    have k: "mImplementation s1 = mImplementation s" "mTexture s1 = None" by simp_all
    with Cons.prems(5) have "\<not> (\<exists>x\<in>set xs. bindSucceeds (mImplementation s1) x)" by simp
    from Cons.IH [OF Some r Cons.prems(3) k(2) this] k show ?thesis by simp
  qed
qed

subsection \<open>Coding FetchOptions\<close>

lemma encode_appends: "encode c options encoder = encoder @ encode c options []"
  by (simp add: encode_def Let_def)

lemma decode_encode:
  assumes "codersRoundTrip c"
  shows "decode c (encode c options [] @ rest) out = (True, rest, options)"
  using assms
  by (simp add: codersRoundTrip_def roundTrips_def decode_def encode_def Let_def)

lemma decode_failure_keeps_output:
  "\<not> fst (decode c d out) \<Longrightarrow> snd (snd (decode c d out)) = out"
  by (simp add: decode_def split: prod.splits option.splits)

lemma decode_success_fields:
  assumes "fst (decode c d out)"
  shows "\<exists>v1 d1 v2 d2 v3 d3 v4 d4 v5 d5 v6 d6 v7 d7 v8 d8.
      decodeDestination c d = (Some v1, d1) \<and> decodeMode c d1 = (Some v2, d2)
    \<and> decodeCredentials c d2 = (Some v3, d3) \<and> decodeCache c d3 = (Some v4, d4)
    \<and> decodeRedirect c d4 = (Some v5, d5) \<and> decodeReferrerPolicy c d5 = (Some v6, d6)
    \<and> decodeString c d6 = (Some v7, d7) \<and> decodeBool c d7 = (Some v8, d8)
    \<and> decode c d out = (True, d8,
         \<lparr> destination = v1, mode = v2, credentials = v3, cache = v4, redirect = v5,
           referrerPolicy = v6, integrity = v7, keepAlive = v8 \<rparr>)"
  using assms
  by (auto simp: decode_def split: prod.splits option.splits)

lemma indexOf_nth: "x \<in> set xs \<Longrightarrow> indexOf x xs < length xs \<and> xs ! indexOf x xs = x"
  by (induction xs) auto

lemma enum_roundTrips:
  assumes "\<And>x. x \<in> set values"
  shows "roundTrips (encodeEnum values) (decodeEnum values)"
  using indexOf_nth [OF assms] by (simp add: roundTrips_def encodeEnum_def decodeEnum_def)

lemma Destination_values_complete: "x \<in> set Destination_values"
  by (cases x) (simp_all add: Destination_values_def)

lemma Mode_values_complete: "x \<in> set Mode_values"
  by (cases x) (simp_all add: Mode_values_def)

lemma Credentials_values_complete: "x \<in> set Credentials_values"
  by (cases x) (simp_all add: Credentials_values_def)

lemma Cache_values_complete: "x \<in> set Cache_values"
  by (cases x) (simp_all add: Cache_values_def)

lemma Redirect_values_complete: "x \<in> set Redirect_values"
  by (cases x) (simp_all add: Redirect_values_def)

lemma ReferrerPolicy_values_complete: "x \<in> set ReferrerPolicy_values"
  by (cases x) (simp_all add: ReferrerPolicy_values_def)

lemma exampleString_roundTrips: "roundTrips exampleEncodeString exampleDecodeString"
  by (simp add: roundTrips_def exampleEncodeString_def exampleDecodeString_def comp_def)

lemma exampleBool_roundTrips: "roundTrips exampleEncodeBool exampleDecodeBool"
  by (simp add: roundTrips_def exampleEncodeBool_def exampleDecodeBool_def)

lemma exampleCoders_roundTrip: "codersRoundTrip exampleCoders"
  by (simp add: codersRoundTrip_def exampleCoders_def enum_roundTrips
      Destination_values_complete Mode_values_complete Credentials_values_complete
      Cache_values_complete Redirect_values_complete ReferrerPolicy_values_complete
      exampleString_roundTrips exampleBool_roundTrips)

section \<open>The lifetime of a Surface\<close>

text \<open>
  Claim C1. Take any surface and any finite sequence of operations that runs without a
  fault: no assertion failed, so that no \<open>setIsCurrent(false)\<close> met a current count of
  zero, and the count never overflowed.
  If the surface has been torn down at the end of the run, then \<open>onDestroy\<close> has been
  called (in the sequence, or before it: the flag was already set) and the current count,
  which is the count at the start plus what the sequence added, is zero. As long as the
  surface lives, its counter and flag are exactly that running count and that record of
  \<open>onDestroy\<close>, and no teardown has been logged. Nothing can follow a teardown, so
  every sequence that tears the surface down does so at the end of such a run.
\<close>

theorem teardown_waits_for_onDestroy_and_zero_count:
  assumes "surface w0 = Some s0" and "run d w0 ops = Inr w"
  shows "((surface w = None \<or> teardowns w0 < teardowns w) \<longrightarrow>
            (mDestroyed s0 \<or> OnDestroy \<in> set ops) \<and> mCurrentCount s0 + netCount ops = 0)
       \<and> (\<forall>s. surface w = Some s \<longrightarrow>
            mCurrentCount s = mCurrentCount s0 + netCount ops
            \<and> mDestroyed s = (mDestroyed s0 \<or> OnDestroy \<in> set ops)
            \<and> teardowns w = teardowns w0)"
  using run_effect [OF assms] by (auto split: option.splits)

theorem teardown_waits_for_onDestroy_and_zero_count_witness:
  "surface (newWorld exampleWindow) = Some exampleWindow
   \<and> mCurrentCount exampleWindow = 0 \<and> \<not> mDestroyed exampleWindow
   \<and> run 1 (newWorld exampleWindow)
        [SetIsCurrent True, SetIsCurrent True, OnDestroy, SetIsCurrent False, SetIsCurrent False]
      = Inr \<lparr> surface = None, calls = [Impl_destroy 1, Delete_implementation, Delete_this] \<rparr>
   \<and> OnDestroy \<in> set [SetIsCurrent True, SetIsCurrent True, OnDestroy, SetIsCurrent False,
                        SetIsCurrent False]
   \<and> netCount [SetIsCurrent True, SetIsCurrent True, OnDestroy, SetIsCurrent False,
                SetIsCurrent False] = 0
   \<and> map_sum id calls
        (run 1 (newWorld exampleWindow)
           [SetIsCurrent True, SetIsCurrent True, OnDestroy, SetIsCurrent False])
      = Inr []"
proof -
  have a: "surface (newWorld exampleWindow) = Some exampleWindow"
    by (simp add: newWorld_def)
  have b: "run 1 (newWorld exampleWindow)
        [SetIsCurrent True, SetIsCurrent True, OnDestroy, SetIsCurrent False, SetIsCurrent False]
      = Inr \<lparr> surface = None, calls = [Impl_destroy 1, Delete_implementation, Delete_this] \<rparr>"
    by (simp add: example_defs method_defs)
  have c: "mCurrentCount exampleWindow = 0 \<and> \<not> mDestroyed exampleWindow"
    by (simp add: example_defs Let_def)
  have e: "map_sum id calls
        (run 1 (newWorld exampleWindow)
           [SetIsCurrent True, SetIsCurrent True, OnDestroy, SetIsCurrent False])
      = Inr []"
    by (simp add: example_defs method_defs)
  from teardown_waits_for_onDestroy_and_zero_count [OF a b] a b c e show ?thesis by simp
qed

text \<open>
  Claim C2. A surface is torn down exactly once. With a current count of zero,
  \<open>onDestroy\<close> tears it down at once. With a positive count \<open>n + 1\<close>, \<open>onDestroy\<close>
  leaves it alive, and so do the first \<open>n\<close> calls of \<open>setIsCurrent(false)\<close> after it;
  the call that brings the count to zero tears it down, once. And whatever sequence of
  operations runs on a surface, the log shows one teardown more than before if the surface
  is gone at the end and none more if it lives: never two.
\<close>

theorem teardown_happens_exactly_once:
  assumes "surface w0 = Some s0"
  shows "(mCurrentCount s0 = 0 \<longrightarrow>
            (\<exists>w. onDestroy d w0 = Inr w \<and> surface w = None \<and> teardowns w = Suc (teardowns w0)))
       \<and> (mCurrentCount s0 = int (Suc n) \<longrightarrow>
            (\<exists>w s. onDestroy d w0 = Inr w \<and> surface w = Some s \<and> teardowns w = teardowns w0)
          \<and> (\<forall>k\<le>n. \<exists>w s. run d w0 (OnDestroy # replicate k (SetIsCurrent False)) = Inr w
                  \<and> surface w = Some s \<and> teardowns w = teardowns w0)
          \<and> (\<exists>w. run d w0 (OnDestroy # replicate (Suc n) (SetIsCurrent False)) = Inr w
                  \<and> surface w = None \<and> teardowns w = Suc (teardowns w0)))
       \<and> (\<forall>ops w. run d w0 ops = Inr w \<longrightarrow>
            teardowns w = (if surface w = None then Suc (teardowns w0) else teardowns w0))"
proof (intro conjI impI allI)
  assume z: "mCurrentCount s0 = 0"
  obtain w where dw: "destroy d (w0\<lparr>surface := Some (s0\<lparr>mDestroyed := True\<rparr>)\<rparr>) = Inr w"
    by (simp add: destroy_live)
  from destroy_teardowns [OF _ dw] have "surface w = None" "teardowns w = Suc (teardowns w0)"
    by (simp_all add: teardowns_def)
  moreover from z dw assms have "onDestroy d w0 = Inr w" by (simp add: onDestroy_def Let_def)
  ultimately show "\<exists>w. onDestroy d w0 = Inr w \<and> surface w = None \<and> teardowns w = Suc (teardowns w0)"
    by blast
next
  assume c: "mCurrentCount s0 = int (Suc n)"
  let ?s1 = "s0\<lparr>mDestroyed := True\<rparr>"
  let ?w1 = "w0\<lparr>surface := Some ?s1\<rparr>"
  from c assms have od: "onDestroy d w0 = Inr ?w1" by (simp add: onDestroy_def Let_def)
  then show "\<exists>w s. onDestroy d w0 = Inr w \<and> surface w = Some s \<and> teardowns w = teardowns w0"
    by (simp add: teardowns_def)
  {
    fix k assume "k \<le> n"
    with c have "run d ?w1 (replicate k (SetIsCurrent False))
        = Inr (?w1\<lparr>surface := Some (?s1\<lparr>mCurrentCount := mCurrentCount ?s1 - int k\<rparr>)\<rparr>)"
      by (intro run_release_partial [where s = ?s1]) simp_all
    with od show "\<exists>w s. run d w0 (OnDestroy # replicate k (SetIsCurrent False)) = Inr w
        \<and> surface w = Some s \<and> teardowns w = teardowns w0"
      by (simp add: teardowns_def)
  }
  from c have "\<exists>w'. run d ?w1 (replicate (Suc n) (SetIsCurrent False)) = Inr w'
      \<and> surface w' = None \<and> teardowns w' = Suc (teardowns ?w1)"
    by (intro run_release_last [where s = ?s1]) simp_all
  with od show "\<exists>w. run d w0 (OnDestroy # replicate (Suc n) (SetIsCurrent False)) = Inr w
      \<and> surface w = None \<and> teardowns w = Suc (teardowns w0)"
    by (simp add: teardowns_def)
next
  fix ops w assume "run d w0 ops = Inr w"
  from run_effect [OF assms this]
  show "teardowns w = (if surface w = None then Suc (teardowns w0) else teardowns w0)"
    by (auto split: option.splits)
qed

theorem teardown_happens_exactly_once_witness:
  "surface (newWorld examplePbuffer) = Some examplePbuffer
   \<and> mCurrentCount examplePbuffer = 0
   \<and> onDestroy 1 (newWorld examplePbuffer)
       = Inr \<lparr> surface = None, calls = [Impl_destroy 1, Delete_implementation, Delete_this] \<rparr>
   \<and> teardowns \<lparr> surface = None, calls = [Impl_destroy 1, Delete_implementation, Delete_this] \<rparr>
       = 1
   \<and> mCurrentCount (examplePbuffer\<lparr>mCurrentCount := 2\<rparr>) = int (Suc 1)
   \<and> map_sum id teardowns
        (run 1 \<lparr> surface = Some (examplePbuffer\<lparr>mCurrentCount := 2\<rparr>), calls = [] \<rparr>
           [OnDestroy, SetIsCurrent False])
       = Inr 0
   \<and> run 1 \<lparr> surface = Some (examplePbuffer\<lparr>mCurrentCount := 2\<rparr>), calls = [] \<rparr>
        [OnDestroy, SetIsCurrent False, SetIsCurrent False]
       = Inr \<lparr> surface = None, calls = [Impl_destroy 1, Delete_implementation, Delete_this] \<rparr>"
proof -
  have a: "surface (newWorld examplePbuffer) = Some examplePbuffer"
    by (simp add: newWorld_def)
  have b: "surface \<lparr> surface = Some (examplePbuffer\<lparr>mCurrentCount := 2\<rparr>), calls = [] \<rparr>
      = Some (examplePbuffer\<lparr>mCurrentCount := 2\<rparr>)"
    by simp
  have c: "mCurrentCount examplePbuffer = 0"
    by (simp add: example_defs Let_def)
  have e: "onDestroy 1 (newWorld examplePbuffer)
       = Inr \<lparr> surface = None, calls = [Impl_destroy 1, Delete_implementation, Delete_this] \<rparr>"
    by (simp add: example_defs method_defs)
  have f: "map_sum id teardowns
        (run 1 \<lparr> surface = Some (examplePbuffer\<lparr>mCurrentCount := 2\<rparr>), calls = [] \<rparr>
           [OnDestroy, SetIsCurrent False])
       = Inr 0"
    by (simp add: example_defs method_defs teardowns_def)
  have g: "run 1 \<lparr> surface = Some (examplePbuffer\<lparr>mCurrentCount := 2\<rparr>), calls = [] \<rparr>
        [OnDestroy, SetIsCurrent False, SetIsCurrent False]
       = Inr \<lparr> surface = None, calls = [Impl_destroy 1, Delete_implementation, Delete_this] \<rparr>"
    by (simp add: example_defs method_defs)
  from teardown_happens_exactly_once [OF a, of 1 0]
    teardown_happens_exactly_once [OF b, of 1 1] a c e f g
  show ?thesis by (simp add: teardowns_def)
qed

text \<open>
  Claim C9. \<open>setIsCurrent(true)\<close> adds one to the current count and does nothing else,
  whatever the destroyed flag says: the log of calls is unchanged, so nothing is torn
  down. The one exception is a count of \<open>INT_MAX\<close>, where the increment has no defined
  behaviour in C++ and is a fault here; no teardown happens there either. A surface whose
  flag is set and whose count is \<open>n\<close> can thus be made current again; it then survives
  the next \<open>n\<close> calls of \<open>setIsCurrent(false)\<close> and is torn down by the one after,
  when the count is zero once more.
\<close>

theorem setIsCurrent_true_only_counts:
  assumes "surface w = Some s"
  shows "setIsCurrent d True w =
           (if mCurrentCount s < INT_MAX
            then Inr (w\<lparr>surface := Some (s\<lparr>mCurrentCount := mCurrentCount s + 1\<rparr>)\<rparr>)
            else Inl SignedOverflow)
       \<and> (mDestroyed s \<and> mCurrentCount s = int n \<and> int n < INT_MAX \<longrightarrow>
            (\<forall>k\<le>n. \<exists>w' s'. run d w (SetIsCurrent True # replicate k (SetIsCurrent False)) = Inr w'
                  \<and> surface w' = Some s' \<and> mCurrentCount s' = int n + 1 - int k
                  \<and> mDestroyed s' \<and> calls w' = calls w)
          \<and> (\<exists>w'. run d w (SetIsCurrent True # replicate (Suc n) (SetIsCurrent False)) = Inr w'
                  \<and> surface w' = None \<and> teardowns w' = Suc (teardowns w)))"
proof (intro conjI impI allI)
  let ?s1 = "s\<lparr>mCurrentCount := mCurrentCount s + 1\<rparr>"
  let ?w1 = "w\<lparr>surface := Some ?s1\<rparr>"
  show "setIsCurrent d True w = (if mCurrentCount s < INT_MAX then Inr ?w1 else Inl SignedOverflow)"
    using assms by (simp add: setIsCurrent_def)
  {
    fix k
    assume h: "mDestroyed s \<and> mCurrentCount s = int n \<and> int n < INT_MAX" and "k \<le> n"
    from h assms have up: "setIsCurrent d True w = Inr ?w1"
      by (simp add: setIsCurrent_def)
    from h \<open>k \<le> n\<close> have "run d ?w1 (replicate k (SetIsCurrent False))
        = Inr (?w1\<lparr>surface := Some (?s1\<lparr>mCurrentCount := mCurrentCount ?s1 - int k\<rparr>)\<rparr>)"
      by (intro run_release_partial [where s = ?s1]) simp_all
    with up h show "\<exists>w' s'. run d w (SetIsCurrent True # replicate k (SetIsCurrent False)) = Inr w'
        \<and> surface w' = Some s' \<and> mCurrentCount s' = int n + 1 - int k
        \<and> mDestroyed s' \<and> calls w' = calls w"
      by simp
  }
  assume h: "mDestroyed s \<and> mCurrentCount s = int n \<and> int n < INT_MAX"
  with assms have up: "setIsCurrent d True w = Inr ?w1"
    by (simp add: setIsCurrent_def)
  from h have "\<exists>w'. run d ?w1 (replicate (Suc n) (SetIsCurrent False)) = Inr w'
      \<and> surface w' = None \<and> teardowns w' = Suc (teardowns ?w1)"
    by (intro run_release_last [where s = ?s1]) simp_all
  with up show "\<exists>w'. run d w (SetIsCurrent True # replicate (Suc n) (SetIsCurrent False)) = Inr w'
      \<and> surface w' = None \<and> teardowns w' = Suc (teardowns w)"
    by (simp add: teardowns_def)
qed

theorem setIsCurrent_true_only_counts_witness:
  "surface \<lparr> surface = Some (examplePbuffer\<lparr>mCurrentCount := 1, mDestroyed := True\<rparr>),
             calls = [] \<rparr>
     = Some (examplePbuffer\<lparr>mCurrentCount := 1, mDestroyed := True\<rparr>)
   \<and> mDestroyed (examplePbuffer\<lparr>mCurrentCount := 1, mDestroyed := True\<rparr>)
   \<and> mCurrentCount (examplePbuffer\<lparr>mCurrentCount := 1, mDestroyed := True\<rparr>) = int 1
   \<and> int 1 < INT_MAX
   \<and> setIsCurrent 1 True
        \<lparr> surface = Some (examplePbuffer\<lparr>mCurrentCount := 1, mDestroyed := True\<rparr>),
          calls = [] \<rparr>
       = Inr \<lparr> surface = Some (examplePbuffer\<lparr>mCurrentCount := 2, mDestroyed := True\<rparr>),
               calls = [] \<rparr>
   \<and> map_sum id calls
        (run 1 \<lparr> surface = Some (examplePbuffer\<lparr>mCurrentCount := 1, mDestroyed := True\<rparr>),
                 calls = [] \<rparr>
           [SetIsCurrent True, SetIsCurrent False])
       = Inr []
   \<and> run 1 \<lparr> surface = Some (examplePbuffer\<lparr>mCurrentCount := 1, mDestroyed := True\<rparr>),
              calls = [] \<rparr>
        [SetIsCurrent True, SetIsCurrent False, SetIsCurrent False]
       = Inr \<lparr> surface = None, calls = [Impl_destroy 1, Delete_implementation, Delete_this] \<rparr>
   \<and> setIsCurrent 1 True
        \<lparr> surface = Some (examplePbuffer\<lparr>mCurrentCount := 2147483647, mDestroyed := True\<rparr>),
          calls = [] \<rparr>
       = Inl SignedOverflow"
proof -
  let ?s = "examplePbuffer\<lparr>mCurrentCount := 1, mDestroyed := True\<rparr>"
  let ?w = "\<lparr> surface = Some ?s, calls = [] \<rparr>"
  let ?t = "examplePbuffer\<lparr>mCurrentCount := 2147483647, mDestroyed := True\<rparr>"
  let ?v = "\<lparr> surface = Some ?t, calls = [] \<rparr>"
  have a: "surface ?w = Some ?s" by simp
  have a': "surface ?v = Some ?t" by simp
  have b: "map_sum id calls (run 1 ?w [SetIsCurrent True, SetIsCurrent False]) = Inr []"
    by (simp add: example_defs method_defs)
  have c: "run 1 ?w [SetIsCurrent True, SetIsCurrent False, SetIsCurrent False]
       = Inr \<lparr> surface = None, calls = [Impl_destroy 1, Delete_implementation, Delete_this] \<rparr>"
    by (simp add: example_defs method_defs)
  from setIsCurrent_true_only_counts [OF a, of 1 1] setIsCurrent_true_only_counts [OF a', of 1 0]
    b c
  show ?thesis by (simp add: INT_MAX_def)
qed

section \<open>The order of a teardown\<close>

text \<open>
  Claim C3, amended. When a surface is torn down, \<open>destroy\<close> first tears down the
  default framebuffer through \<open>destroyDefault\<close> and then the backend through its
  \<open>destroy\<close>, each if present. Only then does \<open>delete this\<close> run the destructor,
  which releases the claim of a bound texture (the backend's \<open>releaseTexImage\<close> on the
  back buffer if a backend is present, then the texture's \<open>releaseTexImageFromSurface\<close>),
  deletes the framebuffer and the backend, and at last the surface's storage is released.
\<close>

theorem destroy_order:
  assumes "surface w = Some s"
  shows "destroy d w = Inr \<lparr> surface = None,
     calls = calls w
       @ (case defaultFramebuffer s of Some fb \<Rightarrow> [Framebuffer_destroyDefault d] | None \<Rightarrow> [])
       @ (case mImplementation s of Some impl \<Rightarrow> [Impl_destroy d] | None \<Rightarrow> [])
       @ (case mTexture s of
            Some t \<Rightarrow>
              (case mImplementation s of
                 Some impl \<Rightarrow> [Impl_releaseTexImage EGL_BACK_BUFFER] | None \<Rightarrow> [])
              @ [Texture_releaseTexImageFromSurface t]
          | None \<Rightarrow> [])
       @ (case defaultFramebuffer s of Some fb \<Rightarrow> [Delete_defaultFramebuffer] | None \<Rightarrow> [])
       @ (case mImplementation s of Some impl \<Rightarrow> [Delete_implementation] | None \<Rightarrow> [])
       @ [Delete_this] \<rparr>"
  using assms by (simp add: destroy_def delete_this_def Surface_dtor_def)

theorem destroy_order_witness:
  "surface \<lparr> surface = Some (examplePbuffer\<lparr>defaultFramebuffer := Some DefaultFramebuffer,
                                              mTexture := Some 7\<rparr>),
             calls = [] \<rparr>
     = Some (examplePbuffer\<lparr>defaultFramebuffer := Some DefaultFramebuffer, mTexture := Some 7\<rparr>)
   \<and> destroy 1 \<lparr> surface = Some (examplePbuffer\<lparr>defaultFramebuffer := Some DefaultFramebuffer,
                                                   mTexture := Some 7\<rparr>),
                  calls = [] \<rparr>
     = Inr \<lparr> surface = None,
             calls = [Framebuffer_destroyDefault 1, Impl_destroy 1,
                      Impl_releaseTexImage EGL_BACK_BUFFER, Texture_releaseTexImageFromSurface 7,
                      Delete_defaultFramebuffer, Delete_implementation, Delete_this] \<rparr>"
proof -
  let ?s = "examplePbuffer\<lparr>defaultFramebuffer := Some DefaultFramebuffer, mTexture := Some 7\<rparr>"
  have a: "surface \<lparr> surface = Some ?s, calls = [] \<rparr> = Some ?s" by simp
  from destroy_order [OF a, of 1] show ?thesis
    by (simp add: example_defs)
qed

text \<open>
  The order the claim states fails on a pbuffer surface that is initialised, bound to
  texture 7 and destroyed: the framebuffer and the backend are torn down before the
  texture's claim is released, not after.
\<close>

theorem texture_release_first_counterexample:
  "run 1 (newWorld examplePbuffer) [Initialize, BindTexImage 7 EGL_BACK_BUFFER, OnDestroy]
     = Inr \<lparr> surface = None,
             calls = [Impl_initialize 1, Impl_bindTexImage 7 EGL_BACK_BUFFER,
                      Texture_bindTexImageFromSurface 7, Framebuffer_destroyDefault 1,
                      Impl_destroy 1, Impl_releaseTexImage EGL_BACK_BUFFER,
                      Texture_releaseTexImageFromSurface 7, Delete_defaultFramebuffer,
                      Delete_implementation, Delete_this] \<rparr>
   \<and> \<not> precedes (Texture_releaseTexImageFromSurface 7) (Framebuffer_destroyDefault 1)
         [Impl_initialize 1, Impl_bindTexImage 7 EGL_BACK_BUFFER,
          Texture_bindTexImageFromSurface 7, Framebuffer_destroyDefault 1, Impl_destroy 1,
          Impl_releaseTexImage EGL_BACK_BUFFER, Texture_releaseTexImageFromSurface 7,
          Delete_defaultFramebuffer, Delete_implementation, Delete_this]
   \<and> precedes (Impl_destroy 1) (Texture_releaseTexImageFromSurface 7)
         [Impl_initialize 1, Impl_bindTexImage 7 EGL_BACK_BUFFER,
          Texture_bindTexImageFromSurface 7, Framebuffer_destroyDefault 1, Impl_destroy 1,
          Impl_releaseTexImage EGL_BACK_BUFFER, Texture_releaseTexImageFromSurface 7,
          Delete_defaultFramebuffer, Delete_implementation, Delete_this]"
  by (simp add: example_defs method_defs)

section \<open>Binding and releasing a texture\<close>

text \<open>
  Claim C4. \<open>bindTexImage\<close> asserts that no texture is bound: on a surface with a
  bound texture it ends in a failed assertion, whatever the backend would answer, and
  replaces nothing. With no texture bound and a backend that accepts, it tells the
  supplied texture that it is now sourced from this surface and records the texture as
  bound; if the backend refuses, its error is returned and the surface is unchanged.
  So a second \<open>bindTexImage\<close> straight after a successful one is a failed assertion.
\<close>

theorem bindTexImage_contract:
  assumes "surface w = Some s"
  shows "(mTexture s \<noteq> None \<longrightarrow> bindTexImage texture buffer w = Inl AssertFailure)
       \<and> (mTexture s = None \<and> mImplementation s = Some impl \<longrightarrow>
            bindTexImage texture buffer w =
              (if impl_bindTexImage impl texture buffer = EGL_SUCCESS
               then Inr (EGL_SUCCESS,
                      \<lparr> surface = Some (s\<lparr>mTexture := Some texture\<rparr>),
                        calls = calls w @ [Impl_bindTexImage texture buffer,
                                           Texture_bindTexImageFromSurface texture] \<rparr>)
               else Inr (impl_bindTexImage impl texture buffer,
                      w\<lparr>calls := calls w @ [Impl_bindTexImage texture buffer]\<rparr>)))
       \<and> (\<forall>w'. bindTexImage texture buffer w = Inr (EGL_SUCCESS, w') \<longrightarrow>
            bindTexImage texture2 buffer2 w' = Inl AssertFailure)"
  using assms
  by (auto simp: bindTexImage_def ASSERT_def isError_def Let_def split: option.splits if_splits)

theorem bindTexImage_contract_witness:
  "surface (newWorld examplePbuffer) = Some examplePbuffer
   \<and> mTexture examplePbuffer = None \<and> mImplementation examplePbuffer = Some exampleImpl
   \<and> impl_bindTexImage exampleImpl 7 EGL_BACK_BUFFER = EGL_SUCCESS
   \<and> bindTexImage 7 EGL_BACK_BUFFER (newWorld examplePbuffer)
       = Inr (EGL_SUCCESS,
           \<lparr> surface = Some (examplePbuffer\<lparr>mTexture := Some 7\<rparr>),
             calls = [Impl_bindTexImage 7 EGL_BACK_BUFFER, Texture_bindTexImageFromSurface 7] \<rparr>)
   \<and> bindTexImage 8 EGL_BACK_BUFFER
        \<lparr> surface = Some (examplePbuffer\<lparr>mTexture := Some 7\<rparr>),
          calls = [Impl_bindTexImage 7 EGL_BACK_BUFFER, Texture_bindTexImageFromSurface 7] \<rparr>
       = Inl AssertFailure"
proof -
  have a: "surface (newWorld examplePbuffer) = Some examplePbuffer"
    by (simp add: newWorld_def)
  have b: "mTexture examplePbuffer = None \<and> mImplementation examplePbuffer = Some exampleImpl"
    by (simp add: examplePbuffer_def PbufferSurface_def Surface_ctor_def Let_def)
  have c: "impl_bindTexImage exampleImpl 7 EGL_BACK_BUFFER = EGL_SUCCESS"
    by (simp add: exampleImpl_def)
  from bindTexImage_contract [OF a, of 7 EGL_BACK_BUFFER exampleImpl 8 EGL_BACK_BUFFER] a b c
  show ?thesis by (simp add: newWorld_def)
qed

text \<open>
  Claim C5. \<open>releaseTexImage\<close> first asks the backend to stop; if the backend reports
  an error, that error is returned and nothing else happens. Otherwise it asserts that a
  texture is bound, a failed assertion if none is, and then clears the texture's
  reference to the surface and the surface's own binding. In particular, on a surface
  that started with no texture bound and has seen no successful \<open>bindTexImage\<close>, a
  \<open>releaseTexImage\<close> that the backend accepts is a failed assertion.
\<close>

theorem releaseTexImage_contract:
  assumes "surface w = Some s" and "mImplementation s = Some impl"
  shows "releaseTexImage buffer w =
           (if impl_releaseTexImage impl buffer \<noteq> EGL_SUCCESS
            then Inr (impl_releaseTexImage impl buffer,
                   w\<lparr>calls := calls w @ [Impl_releaseTexImage buffer]\<rparr>)
            else case mTexture s of
                   None \<Rightarrow> Inl AssertFailure
                 | Some t \<Rightarrow>
                     Inr (EGL_SUCCESS,
                       \<lparr> surface = Some (s\<lparr>mTexture := None\<rparr>),
                         calls = calls w @ [Impl_releaseTexImage buffer,
                                            Texture_releaseTexImageFromSurface t] \<rparr>))
       \<and> (\<forall>s0 d ops. surface w0 = Some s0 \<and> mTexture s0 = None \<and> run d w0 ops = Inr w
              \<and> \<not> (\<exists>x\<in>set ops. bindSucceeds (mImplementation s0) x)
              \<and> impl_releaseTexImage impl buffer = EGL_SUCCESS
            \<longrightarrow> releaseTexImage buffer w = Inl AssertFailure)"
proof (intro conjI allI impI)
  show eq: "releaseTexImage buffer w =
           (if impl_releaseTexImage impl buffer \<noteq> EGL_SUCCESS
            then Inr (impl_releaseTexImage impl buffer,
                   w\<lparr>calls := calls w @ [Impl_releaseTexImage buffer]\<rparr>)
            else case mTexture s of
                   None \<Rightarrow> Inl AssertFailure
                 | Some t \<Rightarrow>
                     Inr (EGL_SUCCESS,
                       \<lparr> surface = Some (s\<lparr>mTexture := None\<rparr>),
                         calls = calls w @ [Impl_releaseTexImage buffer,
                                            Texture_releaseTexImageFromSurface t] \<rparr>))"
    using assms
    by (simp add: releaseTexImage_def ASSERT_def isError_def Let_def split: option.splits)
  fix s0 d ops
  assume h: "surface w0 = Some s0 \<and> mTexture s0 = None \<and> run d w0 ops = Inr w
              \<and> \<not> (\<exists>x\<in>set ops. bindSucceeds (mImplementation s0) x)
              \<and> impl_releaseTexImage impl buffer = EGL_SUCCESS"
  then have "mTexture s = None"
    using run_keeps_unbound [of w0 s0 d ops w s] assms(1) by simp
  with eq h show "releaseTexImage buffer w = Inl AssertFailure" by simp
qed

theorem releaseTexImage_contract_witness:
  "surface \<lparr> surface = Some (examplePbuffer\<lparr>mTexture := Some 7\<rparr>),
             calls = [Impl_bindTexImage 7 EGL_BACK_BUFFER, Texture_bindTexImageFromSurface 7] \<rparr>
     = Some (examplePbuffer\<lparr>mTexture := Some 7\<rparr>)
   \<and> mImplementation (examplePbuffer\<lparr>mTexture := Some 7\<rparr>) = Some exampleImpl
   \<and> releaseTexImage EGL_BACK_BUFFER
        \<lparr> surface = Some (examplePbuffer\<lparr>mTexture := Some 7\<rparr>),
          calls = [Impl_bindTexImage 7 EGL_BACK_BUFFER, Texture_bindTexImageFromSurface 7] \<rparr>
       = Inr (EGL_SUCCESS,
           \<lparr> surface = Some (examplePbuffer\<lparr>mTexture := None\<rparr>),
             calls = [Impl_bindTexImage 7 EGL_BACK_BUFFER, Texture_bindTexImageFromSurface 7,
                      Impl_releaseTexImage EGL_BACK_BUFFER,
                      Texture_releaseTexImageFromSurface 7] \<rparr>)
   \<and> run 1 (newWorld examplePbuffer) [SetIsCurrent True] =
       Inr \<lparr> surface = Some (examplePbuffer\<lparr>mCurrentCount := 1\<rparr>), calls = [] \<rparr>
   \<and> \<not> (\<exists>x\<in>set [SetIsCurrent True]. bindSucceeds (mImplementation examplePbuffer) x)
   \<and> releaseTexImage EGL_BACK_BUFFER
        \<lparr> surface = Some (examplePbuffer\<lparr>mCurrentCount := 1\<rparr>), calls = [] \<rparr>
       = Inl AssertFailure"
proof -
  let ?s = "examplePbuffer\<lparr>mTexture := Some 7\<rparr>"
  let ?w = "\<lparr> surface = Some ?s,
     calls = [Impl_bindTexImage 7 EGL_BACK_BUFFER, Texture_bindTexImageFromSurface 7] \<rparr>"
  let ?s1 = "examplePbuffer\<lparr>mCurrentCount := 1\<rparr>"
  let ?w1 = "\<lparr> surface = Some ?s1, calls = [] \<rparr>"
  have a: "surface ?w = Some ?s" by simp
  have b: "mImplementation ?s = Some exampleImpl"
    by (simp add: examplePbuffer_def PbufferSurface_def)
  have a1: "surface ?w1 = Some ?s1" by simp
  have b1: "mImplementation ?s1 = Some exampleImpl"
    by (simp add: examplePbuffer_def PbufferSurface_def)
  have c: "impl_releaseTexImage exampleImpl EGL_BACK_BUFFER = EGL_SUCCESS"
    by (simp add: exampleImpl_def)
  have e: "mTexture ?s = Some 7" by simp
  have f: "surface (newWorld examplePbuffer) = Some examplePbuffer
      \<and> mTexture examplePbuffer = None"
    by (simp add: newWorld_def examplePbuffer_def PbufferSurface_def Surface_ctor_def Let_def)
  have g: "run 1 (newWorld examplePbuffer) [SetIsCurrent True] = Inr ?w1"
    by (simp add: newWorld_def setIsCurrent_def INT_MAX_def examplePbuffer_def
        PbufferSurface_def Surface_ctor_def Let_def)
  have h: "\<not> (\<exists>x\<in>set [SetIsCurrent True]. bindSucceeds (mImplementation examplePbuffer) x)"
    by (simp add: examplePbuffer_def PbufferSurface_def)
  from releaseTexImage_contract [OF a b, of EGL_BACK_BUFFER]
    releaseTexImage_contract [OF a1 b1, of EGL_BACK_BUFFER "newWorld examplePbuffer"]
    a b c e f g h
  show ?thesis by simp
qed

section \<open>Queries on a constructed surface\<close>

text \<open>
  Claim C6. On a surface of any kind, constructed from any attributes and given a
  backend, \<open>isPostSubBufferSupported\<close> returns true (1) exactly when the attribute
  \<open>EGL_POST_SUB_BUFFER_SUPPORTED_NV\<close> was \<open>EGL_TRUE\<close> and the backend reports support
  (a non-zero answer), and false (0) in the three other cases.
\<close>

theorem isPostSubBufferSupported_needs_both:
  "isPostSubBufferSupported
     ((Surface_ctor surfaceType cfg attributes)\<lparr>mImplementation := Some impl\<rparr>)
   = Inr (if attr_get attributes EGL_POST_SUB_BUFFER_SUPPORTED_NV EGL_FALSE = EGL_TRUE
             \<and> impl_isPostSubBufferSupported impl \<noteq> 0
          then 1 else 0)"
  by (simp add: isPostSubBufferSupported_def Surface_ctor_def Let_def)

theorem isPostSubBufferSupported_needs_both_witness:
  "isPostSubBufferSupported
     ((Surface_ctor EGL_WINDOW_BIT exampleConfig exampleAttributes)
        \<lparr>mImplementation := Some exampleImpl\<rparr>) = Inr 1
   \<and> isPostSubBufferSupported
     ((Surface_ctor EGL_WINDOW_BIT exampleConfig exampleAttributes)
        \<lparr>mImplementation := Some (exampleImpl\<lparr>impl_isPostSubBufferSupported := 0\<rparr>)\<rparr>) = Inr 0
   \<and> isPostSubBufferSupported
     ((Surface_ctor EGL_WINDOW_BIT exampleConfig Map.empty)
        \<lparr>mImplementation := Some exampleImpl\<rparr>) = Inr 0
   \<and> isPostSubBufferSupported
     ((Surface_ctor EGL_WINDOW_BIT exampleConfig Map.empty)
        \<lparr>mImplementation := Some (exampleImpl\<lparr>impl_isPostSubBufferSupported := 0\<rparr>)\<rparr>) = Inr 0"
  using isPostSubBufferSupported_needs_both
      [where surfaceType = EGL_WINDOW_BIT and cfg = exampleConfig
         and attributes = exampleAttributes and impl = exampleImpl]
    isPostSubBufferSupported_needs_both
      [where surfaceType = EGL_WINDOW_BIT and cfg = exampleConfig
         and attributes = exampleAttributes
         and impl = "exampleImpl\<lparr>impl_isPostSubBufferSupported := 0\<rparr>"]
    isPostSubBufferSupported_needs_both
      [where surfaceType = EGL_WINDOW_BIT and cfg = exampleConfig
         and attributes = Map.empty and impl = exampleImpl]
    isPostSubBufferSupported_needs_both
      [where surfaceType = EGL_WINDOW_BIT and cfg = exampleConfig
         and attributes = Map.empty
         and impl = "exampleImpl\<lparr>impl_isPostSubBufferSupported := 0\<rparr>"]
  by (simp add: exampleAttributes_def exampleImpl_def attr_get_def EGL_defs)

text \<open>
  Claim C7, amended. A surface of any kind constructed with the attribute
  \<open>EGL_FIXED_SIZE_ANGLE\<close> equal to \<open>EGL_TRUE\<close> answers \<open>getWidth\<close> and \<open>getHeight\<close>
  with its \<open>EGL_WIDTH\<close> and \<open>EGL_HEIGHT\<close> attributes taken through \<open>size_t\<close> and back to
  \<open>EGLint\<close>, whatever backend it has, if any: with the attributes themselves when they are
  in the range of \<open>EGLint\<close>, and otherwise with their low 32 bits read as a signed number.
  A surface constructed without that attribute, or with another value for it, answers
  with the width and height its backend reports.
\<close>

theorem getWidth_getHeight_fixed_or_backend:
  "(attr_get attributes EGL_FIXED_SIZE_ANGLE EGL_FALSE = EGL_TRUE
      \<and> is_EGLint (attr_get attributes EGL_WIDTH 0)
      \<and> is_EGLint (attr_get attributes EGL_HEIGHT 0) \<longrightarrow>
      getWidth ((Surface_ctor surfaceType cfg attributes)\<lparr>mImplementation := created\<rparr>)
        = Inr (attr_get attributes EGL_WIDTH 0)
      \<and> getHeight ((Surface_ctor surfaceType cfg attributes)\<lparr>mImplementation := created\<rparr>)
        = Inr (attr_get attributes EGL_HEIGHT 0))
   \<and> (attr_get attributes EGL_FIXED_SIZE_ANGLE EGL_FALSE = EGL_TRUE \<longrightarrow>
      getWidth ((Surface_ctor surfaceType cfg attributes)\<lparr>mImplementation := created\<rparr>)
        = Inr (to_EGLint (to_size_t (attr_get attributes EGL_WIDTH 0)))
      \<and> getHeight ((Surface_ctor surfaceType cfg attributes)\<lparr>mImplementation := created\<rparr>)
        = Inr (to_EGLint (to_size_t (attr_get attributes EGL_HEIGHT 0))))
   \<and> (attr_get attributes EGL_FIXED_SIZE_ANGLE EGL_FALSE \<noteq> EGL_TRUE \<longrightarrow>
      getWidth ((Surface_ctor surfaceType cfg attributes)\<lparr>mImplementation := Some impl\<rparr>)
        = Inr (impl_getWidth impl)
      \<and> getHeight ((Surface_ctor surfaceType cfg attributes)\<lparr>mImplementation := Some impl\<rparr>)
        = Inr (impl_getHeight impl))"
  by (simp add: getWidth_def getHeight_def Surface_ctor_def Let_def to_EGLint_to_size_t)

theorem getWidth_getHeight_fixed_or_backend_witness:
  "attr_get exampleAttributes EGL_FIXED_SIZE_ANGLE EGL_FALSE = EGL_TRUE
   \<and> attr_get exampleAttributes EGL_WIDTH 0 = 800 \<and> is_EGLint 800
   \<and> attr_get exampleAttributes EGL_HEIGHT 0 = 600 \<and> is_EGLint 600
   \<and> impl_getWidth exampleImpl = 1024 \<and> impl_getHeight exampleImpl = 768
   \<and> getWidth exampleWindow = Inr 800 \<and> getHeight exampleWindow = Inr 600
   \<and> attr_get Map.empty EGL_FIXED_SIZE_ANGLE EGL_FALSE \<noteq> EGL_TRUE
   \<and> getWidth (WindowSurface (Some exampleImpl) exampleConfig Map.empty) = Inr 1024
   \<and> getHeight (WindowSurface (Some exampleImpl) exampleConfig Map.empty) = Inr 768"
proof -
  have a: "attr_get exampleAttributes EGL_FIXED_SIZE_ANGLE EGL_FALSE = EGL_TRUE
      \<and> attr_get exampleAttributes EGL_WIDTH 0 = 800
      \<and> attr_get exampleAttributes EGL_HEIGHT 0 = 600"
    by (simp add: exampleAttributes_def attr_get_def EGL_defs)
  have b: "is_EGLint 800 \<and> is_EGLint 600"
    by (simp add: is_EGLint_def)
  have c: "attr_get Map.empty EGL_FIXED_SIZE_ANGLE EGL_FALSE \<noteq> EGL_TRUE"
    by (simp add: attr_get_def EGL_defs)
  have e: "impl_getWidth exampleImpl = 1024 \<and> impl_getHeight exampleImpl = 768"
    by (simp add: exampleImpl_def)
  from getWidth_getHeight_fixed_or_backend
         [where attributes = exampleAttributes and surfaceType = EGL_WINDOW_BIT
            and cfg = exampleConfig and created = "Some exampleImpl" and impl = exampleImpl]
       getWidth_getHeight_fixed_or_backend
         [where attributes = Map.empty and surfaceType = EGL_WINDOW_BIT
            and cfg = exampleConfig and created = "Some exampleImpl" and impl = exampleImpl]
       a b c e
  show ?thesis by (simp add: exampleWindow_def WindowSurface_def)
qed

text \<open>
  The claim as it stands, that the answers are the two attributes for every fixed-size
  surface, fails where an attribute does not fit an \<open>EGLint\<close>: a width attribute of
  \<open>0x100000005\<close> is answered with 5 and a height attribute of \<open>0xFFFFFFFF\<close> with -1.
\<close>

theorem getWidth_getHeight_attributes_counterexample:
  "attr_get [EGL_FIXED_SIZE_ANGLE \<mapsto> EGL_TRUE, EGL_WIDTH \<mapsto> 0x100000005,
             EGL_HEIGHT \<mapsto> 0xFFFFFFFF] EGL_FIXED_SIZE_ANGLE EGL_FALSE = EGL_TRUE
   \<and> attr_get [EGL_FIXED_SIZE_ANGLE \<mapsto> EGL_TRUE, EGL_WIDTH \<mapsto> 0x100000005,
               EGL_HEIGHT \<mapsto> 0xFFFFFFFF] EGL_WIDTH 0 = 0x100000005
   \<and> attr_get [EGL_FIXED_SIZE_ANGLE \<mapsto> EGL_TRUE, EGL_WIDTH \<mapsto> 0x100000005,
               EGL_HEIGHT \<mapsto> 0xFFFFFFFF] EGL_HEIGHT 0 = 0xFFFFFFFF
   \<and> getWidth (WindowSurface (Some exampleImpl) exampleConfig
        [EGL_FIXED_SIZE_ANGLE \<mapsto> EGL_TRUE, EGL_WIDTH \<mapsto> 0x100000005,
         EGL_HEIGHT \<mapsto> 0xFFFFFFFF]) = Inr 5
   \<and> getHeight (WindowSurface (Some exampleImpl) exampleConfig
        [EGL_FIXED_SIZE_ANGLE \<mapsto> EGL_TRUE, EGL_WIDTH \<mapsto> 0x100000005,
         EGL_HEIGHT \<mapsto> 0xFFFFFFFF]) = Inr (- 1)
   \<and> getWidth (WindowSurface (Some exampleImpl) exampleConfig
        [EGL_FIXED_SIZE_ANGLE \<mapsto> EGL_TRUE, EGL_WIDTH \<mapsto> 0x100000005,
         EGL_HEIGHT \<mapsto> 0xFFFFFFFF]) \<noteq> Inr 0x100000005
   \<and> getHeight (WindowSurface (Some exampleImpl) exampleConfig
        [EGL_FIXED_SIZE_ANGLE \<mapsto> EGL_TRUE, EGL_WIDTH \<mapsto> 0x100000005,
         EGL_HEIGHT \<mapsto> 0xFFFFFFFF]) \<noteq> Inr 0xFFFFFFFF"
  by (simp add: getWidth_def getHeight_def WindowSurface_def Surface_ctor_def attr_get_def
      to_size_t_def to_EGLint_def EGL_defs Let_def)

text \<open>
  Claim C8. Whatever the attribute map holds, a window surface has the texture format and
  the texture target \<open>EGL_NO_TEXTURE\<close>: the constructor does not look at
  \<open>EGL_TEXTURE_FORMAT\<close> and \<open>EGL_TEXTURE_TARGET\<close> for a window. For every other kind it
  reads both, as \<open>EGLenum\<close> values, and takes \<open>EGL_NO_TEXTURE\<close> where one is absent.
\<close>

theorem window_surface_has_no_texture_attributes:
  "getTextureFormat (WindowSurface created cfg attributes) = EGL_NO_TEXTURE
   \<and> getTextureTarget (WindowSurface created cfg attributes) = EGL_NO_TEXTURE
   \<and> (surfaceType \<noteq> EGL_WINDOW_BIT \<longrightarrow>
        getTextureFormat ((Surface_ctor surfaceType cfg attributes)\<lparr>mImplementation := created\<rparr>)
          = to_EGLenum (attr_get attributes EGL_TEXTURE_FORMAT EGL_NO_TEXTURE)
        \<and> getTextureTarget ((Surface_ctor surfaceType cfg attributes)\<lparr>mImplementation := created\<rparr>)
          = to_EGLenum (attr_get attributes EGL_TEXTURE_TARGET EGL_NO_TEXTURE)
        \<and> (attributes EGL_TEXTURE_FORMAT = None \<longrightarrow>
             getTextureFormat
               ((Surface_ctor surfaceType cfg attributes)\<lparr>mImplementation := created\<rparr>)
             = EGL_NO_TEXTURE)
        \<and> (attributes EGL_TEXTURE_TARGET = None \<longrightarrow>
             getTextureTarget
               ((Surface_ctor surfaceType cfg attributes)\<lparr>mImplementation := created\<rparr>)
             = EGL_NO_TEXTURE))"
  by (simp add: getTextureFormat_def getTextureTarget_def WindowSurface_def Surface_ctor_def
      Let_def attr_get_def to_EGLenum_def EGL_NO_TEXTURE_def)

theorem window_surface_has_no_texture_attributes_witness:
  "exampleAttributes EGL_TEXTURE_FORMAT = Some 0x305D
   \<and> exampleAttributes EGL_TEXTURE_TARGET = Some 0x305F
   \<and> getTextureFormat exampleWindow = EGL_NO_TEXTURE
   \<and> getTextureTarget exampleWindow = EGL_NO_TEXTURE
   \<and> EGL_PBUFFER_BIT \<noteq> EGL_WINDOW_BIT
   \<and> getTextureFormat examplePbuffer = 0x305D
   \<and> getTextureTarget examplePbuffer = 0x305F
   \<and> (Map.empty :: AttributeMap) EGL_TEXTURE_FORMAT = None
   \<and> getTextureFormat (PbufferSurface (Some exampleImpl) exampleConfig Map.empty)
       = EGL_NO_TEXTURE
   \<and> getTextureTarget (PbufferSurface (Some exampleImpl) exampleConfig Map.empty)
       = EGL_NO_TEXTURE"
proof -
  have a: "exampleAttributes EGL_TEXTURE_FORMAT = Some 0x305D
      \<and> exampleAttributes EGL_TEXTURE_TARGET = Some 0x305F"
    by (simp add: exampleAttributes_def EGL_defs)
  have b: "EGL_PBUFFER_BIT \<noteq> EGL_WINDOW_BIT"
    by (simp add: EGL_defs)
  have c: "to_EGLenum 0x305D = 0x305D \<and> to_EGLenum 0x305F = 0x305F"
    by (simp add: to_EGLenum_def)
  from window_surface_has_no_texture_attributes
         [where created = "Some exampleImpl" and cfg = exampleConfig
            and attributes = exampleAttributes and surfaceType = EGL_PBUFFER_BIT]
       window_surface_has_no_texture_attributes
         [where created = "Some exampleImpl" and cfg = exampleConfig
            and attributes = Map.empty and surfaceType = EGL_PBUFFER_BIT]
       a b c
  show ?thesis
    by (simp add: exampleWindow_def examplePbuffer_def PbufferSurface_def attr_get_def)
qed

section \<open>FetchOptions survives encoding\<close>

text \<open>
  Claim C10. With an encoder and a decoder that fit together on each field type,
  \<open>decode\<close> reads back what \<open>encode\<close> wrote: it returns true, leaves the decoder right
  behind the eight fields, and the output holds the original's destination, mode,
  credentials, cache, redirect, referrerPolicy, integrity and keepAlive (these are all
  its fields). With any decoder at all: when \<open>decode\<close> returns false the output is left
  exactly as it was, and it returns true only if all eight fields were decoded, one after
  the other, so the failure of any field makes it return false.
\<close>

theorem FetchOptions_roundtrip:
  assumes "codersRoundTrip c"
  shows "encode c options encoder = encoder @ encode c options []
       \<and> decode c (encode c options [] @ rest) out = (True, rest, options)
       \<and> (\<forall>d. \<not> fst (decode c d out) \<longrightarrow> snd (snd (decode c d out)) = out)
       \<and> (\<forall>d. fst (decode c d out) \<longrightarrow>
            (\<exists>v1 d1 v2 d2 v3 d3 v4 d4 v5 d5 v6 d6 v7 d7 v8 d8.
                decodeDestination c d = (Some v1, d1) \<and> decodeMode c d1 = (Some v2, d2)
              \<and> decodeCredentials c d2 = (Some v3, d3) \<and> decodeCache c d3 = (Some v4, d4)
              \<and> decodeRedirect c d4 = (Some v5, d5)
              \<and> decodeReferrerPolicy c d5 = (Some v6, d6)
              \<and> decodeString c d6 = (Some v7, d7) \<and> decodeBool c d7 = (Some v8, d8)
              \<and> decode c d out = (True, d8,
                   \<lparr> destination = v1, mode = v2, credentials = v3, cache = v4,
                     redirect = v5, referrerPolicy = v6, integrity = v7, keepAlive = v8 \<rparr>)))"
proof (intro conjI allI impI)
  show "encode c options encoder = encoder @ encode c options []"
    by (rule encode_appends)
  show "decode c (encode c options [] @ rest) out = (True, rest, options)"
    by (rule decode_encode [OF assms])
next
  fix d assume "\<not> fst (decode c d out)"
  then show "snd (snd (decode c d out)) = out" by (rule decode_failure_keeps_output)
next
  fix d assume "fst (decode c d out)"
  then show "\<exists>v1 d1 v2 d2 v3 d3 v4 d4 v5 d5 v6 d6 v7 d7 v8 d8.
                decodeDestination c d = (Some v1, d1) \<and> decodeMode c d1 = (Some v2, d2)
              \<and> decodeCredentials c d2 = (Some v3, d3) \<and> decodeCache c d3 = (Some v4, d4)
              \<and> decodeRedirect c d4 = (Some v5, d5)
              \<and> decodeReferrerPolicy c d5 = (Some v6, d6)
              \<and> decodeString c d6 = (Some v7, d7) \<and> decodeBool c d7 = (Some v8, d8)
              \<and> decode c d out = (True, d8,
                   \<lparr> destination = v1, mode = v2, credentials = v3, cache = v4,
                     redirect = v5, referrerPolicy = v6, integrity = v7, keepAlive = v8 \<rparr>)"
    by (rule decode_success_fields)
qed

theorem FetchOptions_roundtrip_witness:
  "codersRoundTrip exampleCoders
   \<and> encode exampleCoders exampleOptions [] = [5, 3, 2, 1, 2, 4, 3, 97, 98, 99, 1]
   \<and> decode exampleCoders ([5, 3, 2, 1, 2, 4, 3, 97, 98, 99, 1] @ [42]) FetchOptions_default
       = (True, [42], exampleOptions)
   \<and> \<not> fst (decode exampleCoders [5, 3, 9] exampleOptions)
   \<and> snd (snd (decode exampleCoders [5, 3, 9] exampleOptions)) = exampleOptions"
proof -
  have e: "encode exampleCoders exampleOptions [] = [5, 3, 2, 1, 2, 4, 3, 97, 98, 99, 1]"
    by (simp add: encode_def exampleOptions_def exampleCoder_defs Let_def)
  have f: "\<not> fst (decode exampleCoders [5, 3, 9] exampleOptions)"
    by (simp add: decode_def exampleCoder_defs)
  from FetchOptions_roundtrip [OF exampleCoders_roundTrip, of exampleOptions "[]" "[42]"
      FetchOptions_default] e f
    FetchOptions_roundtrip [OF exampleCoders_roundTrip, of exampleOptions "[]" "[]" exampleOptions]
  show ?thesis using exampleCoders_roundTrip by simp
qed

end
